theory Spec2Isabelle
  imports Main "HOL-Library.Word"
begin

section \<open>The archive writer of compress.c\<close>

text \<open>
  The writer groups a byte stream into independently compressed frames and ends the
  archive with a seek table.  The compressor (zstd), the seek-table codec, the C library
  and the thread library are collaborators of the writer: the model takes them as an
  environment \<open>env\<close>, so every theorem holds for each behaviour they can show.
\<close>

subsection \<open>Data\<close>

type_synonym byte = "8 word"

datatype ZSTD_EndDirective = ZSTD_e_continue | ZSTD_e_flush | ZSTD_e_end

datatype ZSTD_cParameter = ZSTD_c_compressionLevel | ZSTD_c_strategy | ZSTD_c_nbWorkers

text \<open>\<^verbatim>\<open>#define COMPRESSION_LEVEL ZSTD_CLEVEL_DEFAULT\<close> and
  \<^verbatim>\<open>#define COMPRESSION_STRATEGY ZSTD_fast\<close>, with the values zstd gives them.\<close>

definition COMPRESSION_LEVEL :: int where
  "COMPRESSION_LEVEL = 3"

definition COMPRESSION_STRATEGY :: int where
  "COMPRESSION_STRATEGY = 1"

text \<open>The resources a session owns, and the record of their acquisition and release.\<close>

datatype resource = R_writer | R_cctx | R_lock | R_framelog | R_file | R_buf

datatype event = Acquire resource | Release resource

text \<open>The calls into the collaborators whose outcome the writer tests.\<close>

datatype extcall =
    X_malloc
  | X_createCCtx
  | X_setParameter ZSTD_cParameter
  | X_mutex_init
  | X_mutex_lock
  | X_mutex_unlock
  | X_mutex_destroy
  | X_createFrameLog
  | X_logFrame
  | X_freeFrameLog
  | X_freeCCtx
  | X_fopen string
  | X_fclose

text \<open>
  What lies outside the writer struct: a clock that counts the collaborator calls made so
  far (the environment decides each outcome from it), the lines printed on the standard
  error stream, the caller's error buffer \<open>errbuf\<close>, and the resource events.
\<close>

record world =
  clock :: nat
  stderr :: "string list"
  errbuf :: string
  events :: "event list"

text \<open>A frame descriptor as \<^verbatim>\<open>ZSTD_seekable_logFrame\<close> receives it.  The sizes are
  \<^verbatim>\<open>size_t\<close> values; the type parameter is instantiated with a word type.\<close>

record 'sz frame_desc =
  compressed_size :: 'sz
  uncompressed_size :: 'sz
  checksum :: 'sz

record 'sz ZSTD_frameLog =
  entries :: "'sz frame_desc list"
  seekTablePos :: nat

text \<open>\<^verbatim>\<open>struct nio_archive_writer\<close>.  The struct owns the objects its pointers refer
  to, so the record holds their states: the bytes appended to the file, the state of the
  compression context, whether the mutex is locked, and the frame log.\<close>

record ('sz, 'c) nio_archive_writer =
  fout :: "byte list"
  cctx :: 'c
  lock :: bool
  frame_uc :: 'sz
  frame_cm :: 'sz
  min_frame_size :: 'sz
  fl :: "'sz ZSTD_frameLog"

text \<open>The result of one \<^verbatim>\<open>ZSTD_compressStream2\<close> call that is not an error: the new
  context, the bytes put into the output buffer (\<^verbatim>\<open>buffout.pos\<close> is their number),
  the new \<^verbatim>\<open>buffin.pos\<close>, and the returned hint of what remains to be flushed.\<close>

record ('sz, 'c) cs_result =
  cs_cctx :: 'c
  cs_out :: "byte list"
  cs_in_pos :: nat
  cs_rem :: 'sz

text \<open>
  The environment.  \<open>fails t c\<close>: the call \<open>c\<close> made at clock \<open>t\<close> fails.
  \<open>fwrite_count t n\<close>: how many of \<open>n\<close> bytes the \<^verbatim>\<open>fwrite\<close> at clock \<open>t\<close>
  writes.  \<open>compressStream2 c cap src pos d\<close>: the compressor on context \<open>c\<close>, an output
  buffer of \<open>cap\<close> bytes, the input \<open>src\<close> read from \<open>pos\<close>, and the directive \<open>d\<close>;
  \<open>Inl\<close> is an error code.  \<open>buffered c\<close>: the number of bytes of compressed output
  the context \<open>c\<close> still holds.  \<open>writeSeekTable es pos cap\<close>: the seek-table codec on
  the entries \<open>es\<close>, resumed at \<open>pos\<close>; it returns the bytes produced, the new position
  and what remains.
\<close>

record ('sz, 'c) env =
  fails :: "nat \<Rightarrow> extcall \<Rightarrow> bool"
  fwrite_count :: "nat \<Rightarrow> nat \<Rightarrow> nat"
  CStreamOutSize :: nat
  createCCtx :: 'c
  setParameter :: "'c \<Rightarrow> ZSTD_cParameter \<Rightarrow> int \<Rightarrow> 'c"
  compressStream2 :: "'c \<Rightarrow> nat \<Rightarrow> byte list \<Rightarrow> nat \<Rightarrow> ZSTD_EndDirective \<Rightarrow> string + ('sz, 'c) cs_result"
  buffered :: "'c \<Rightarrow> nat"
  writeSeekTable :: "'sz frame_desc list \<Rightarrow> nat \<Rightarrow> nat \<Rightarrow> string + (byte list \<times> nat \<times> 'sz)"

type_synonym ('n, 'c) writer = "('n word, 'c) nio_archive_writer"

type_synonym ('n, 'c) zenv = "('n word, 'c) env"

subsection \<open>Calls into the collaborators\<close>

definition ext_call :: "('sz, 'c) env \<Rightarrow> extcall \<Rightarrow> world \<Rightarrow> bool \<times> world" where
  "ext_call env c wd = (\<not> fails env (clock wd) c, wd\<lparr>clock := Suc (clock wd)\<rparr>)"

definition acquire :: "resource \<Rightarrow> world \<Rightarrow> world" where
  "acquire r wd = wd\<lparr>events := events wd @ [Acquire r]\<rparr>"

definition release :: "resource \<Rightarrow> world \<Rightarrow> world" where
  "release r wd = wd\<lparr>events := events wd @ [Release r]\<rparr>"

text \<open>\<^verbatim>\<open>perror\<close> and \<^verbatim>\<open>fprintf(stderr, ...)\<close>: one line on the standard error stream.
  The line is the fixed text of the message; the text of \<^verbatim>\<open>strerror\<close> is left out.\<close>

definition diag :: "string \<Rightarrow> world \<Rightarrow> world" where
  "diag msg wd = wd\<lparr>stderr := stderr wd @ [msg]\<rparr>"

definition malloc :: "('sz, 'c) env \<Rightarrow> resource \<Rightarrow> world \<Rightarrow> bool \<times> world" where
  "malloc env r wd =
     (let (ok, wd1) = ext_call env X_malloc wd
      in (ok, if ok then acquire r wd1 else wd1))"

text \<open>\<^verbatim>\<open>fwrite(data, 1, n, f)\<close>: appends a prefix of the data and returns its length.\<close>

definition fwrite :: "('sz, 'c) env \<Rightarrow> byte list \<Rightarrow> byte list \<Rightarrow> world \<Rightarrow> nat \<times> byte list \<times> world" where
  "fwrite env data f wd =
     (let n = min (fwrite_count env (clock wd) (length data)) (length data)
      in (n, f @ take n data, wd\<lparr>clock := Suc (clock wd)\<rparr>))"

text \<open>Modelled from the spec: \<^verbatim>\<open>ZSTD_seekable_logFrame\<close> is declared in seek_table.h,
  which is not among the sources.  The frame log builder accumulates the descriptors in
  arrival order; a call that fails appends nothing.\<close>

definition ZSTD_seekable_logFrame ::
  "('sz, 'c) env \<Rightarrow> 'sz ZSTD_frameLog \<Rightarrow> 'sz \<Rightarrow> 'sz \<Rightarrow> 'sz \<Rightarrow> world \<Rightarrow> bool \<times> 'sz ZSTD_frameLog \<times> world" where
  "ZSTD_seekable_logFrame env l cm uc cs wd =
     (let (ok, wd1) = ext_call env X_logFrame wd
      in (ok,
          if ok then l\<lparr>entries := entries l @
                 [\<lparr>compressed_size = cm, uncompressed_size = uc, checksum = cs\<rparr>]\<rparr>
          else l,
          wd1))"

subsection \<open>\<^verbatim>\<open>nio_archive_writer_open\<close>\<close>

text \<open>The labels of the cleanup chain; each falls through to the next.\<close>

definition fail_w_writer :: "world \<Rightarrow> world" where
  "fail_w_writer wd = release R_writer wd"

definition fail_w_cctx :: "world \<Rightarrow> world" where
  "fail_w_cctx wd = fail_w_writer (release R_cctx wd)"

definition fail_w_lock :: "world \<Rightarrow> world" where
  "fail_w_lock wd = fail_w_cctx (release R_lock wd)"

definition fail_w_framelog :: "world \<Rightarrow> world" where
  "fail_w_framelog wd = fail_w_lock (release R_framelog wd)"

definition nio_archive_writer_open ::
  "('n::len, 'c) zenv \<Rightarrow> string \<Rightarrow> int \<Rightarrow> 'n word \<Rightarrow> world \<Rightarrow> ('n, 'c) writer option \<times> world" where
  "nio_archive_writer_open env filename nb_workers mfs wd0 =
     (let (ok, wd1) = malloc env R_writer wd0 in
      if \<not> ok then (None, diag ''nio_archive_writer_open: allocate writer'' wd1)
      else
      let (ok, wd2) = ext_call env X_createCCtx wd1 in
      if \<not> ok then (None, fail_w_writer (diag ''nio_archive_writer_open: create context'' wd2))
      else
      let c0 = createCCtx env;
          wd2 = acquire R_cctx wd2;
          (ok, wd3) = ext_call env (X_setParameter ZSTD_c_compressionLevel) wd2 in
      if \<not> ok then (None, fail_w_cctx (diag ''nio_archive_writer_open: set compression level'' wd3))
      else
      let c1 = setParameter env c0 ZSTD_c_compressionLevel COMPRESSION_LEVEL;
          (ok, wd4) = ext_call env (X_setParameter ZSTD_c_strategy) wd3 in
      if \<not> ok then (None, fail_w_cctx (diag ''nio_archive_writer_open: set strategy'' wd4))
      else
      let c2 = setParameter env c1 ZSTD_c_strategy COMPRESSION_STRATEGY;
          (ok, wd5) = ext_call env (X_setParameter ZSTD_c_nbWorkers) wd4 in
      if \<not> ok then (None, fail_w_cctx (diag ''nio_archive_writer_open: set nb of workers'' wd5))
      else
      let c3 = setParameter env c2 ZSTD_c_nbWorkers nb_workers;
          (ok, wd6) = ext_call env X_mutex_init wd5 in
      if \<not> ok then (None, fail_w_cctx (diag ''nio_archive_writer_open: initialize mutex'' wd6))
      else
      let wd6 = acquire R_lock wd6;
          (ok, wd7) = ext_call env X_createFrameLog wd6 in
      if \<not> ok then (None, fail_w_lock (diag ''nio_archive_writer_open: create frame log failed'' wd7))
      else
      let wd7 = acquire R_framelog wd7;
          (ok, wd8) = ext_call env (X_fopen filename) wd7 in
      if \<not> ok then (None, fail_w_framelog (diag ''nio_archive_writer_open: open file'' wd8))
      else
        (Some \<lparr>fout = [], cctx = c3, lock = False, frame_uc = 0, frame_cm = 0,
               min_frame_size = mfs, fl = \<lparr>entries = [], seekTablePos = 0\<rparr>\<rparr>,
         acquire R_file wd8))"

subsection \<open>\<^verbatim>\<open>end_frame\<close>\<close>

text \<open>The drain loop (\<^verbatim>\<open>do ... while (rem > 0)\<close>).  It ends only when the compressor
  reports an error or nothing left, or a write is short; otherwise it does not return,
  which is the value \<open>None\<close>.\<close>

partial_function (option) end_frame_loop ::
  "('n::len, 'c) zenv \<Rightarrow> nat \<Rightarrow> ('n, 'c) writer \<Rightarrow> world \<Rightarrow> (bool \<times> ('n, 'c) writer \<times> world) option" where
  "end_frame_loop env buf_len w wd =
     (case compressStream2 env (cctx w) buf_len [] 0 ZSTD_e_end of
        Inl e \<Rightarrow> Some (False, w, diag (''end_frame: compress: '' @ e) wd)
      | Inr r \<Rightarrow>
          let w1 = w\<lparr>cctx := cs_cctx r, frame_cm := frame_cm w + of_nat (length (cs_out r))\<rparr>;
              (written, f, wd1) = fwrite env (cs_out r) (fout w1) wd;
              w2 = w1\<lparr>fout := f\<rparr>
          in if written < length (cs_out r)
             then Some (False, w2, diag ''end_frame: write to file'' wd1)
             else if cs_rem r > 0 then end_frame_loop env buf_len w2 wd1
             else Some (True, w2, wd1))"

definition end_frame ::
  "('n::len, 'c) zenv \<Rightarrow> ('n, 'c) writer \<Rightarrow> world \<Rightarrow> (bool \<times> ('n, 'c) writer \<times> world) option" where
  "end_frame env w wd =
     (let buf_len = CStreamOutSize env;
          (ok, wd1) = malloc env R_buf wd
      in if \<not> ok then Some (False, w, diag ''end_frame: allocate output buffer'' wd1)
         else
           case end_frame_loop env buf_len w wd1 of
             None \<Rightarrow> None
           | Some (False, w1, wd2) \<Rightarrow> Some (False, w1, release R_buf wd2)
           | Some (True, w1, wd2) \<Rightarrow>
               let (ok, l, wd3) =
                     ZSTD_seekable_logFrame env (fl w1) (frame_cm w1) (frame_uc w1) 0 wd2
               in if \<not> ok
                  then Some (False, w1, release R_buf (diag ''end_frame: log frame'' wd3))
                  else Some (True, w1\<lparr>fl := l, frame_uc := 0, frame_cm := 0\<rparr>,
                             release R_buf wd3))"

subsection \<open>\<^verbatim>\<open>nio_archive_write\<close>\<close>

text \<open>The feed loop (\<^verbatim>\<open>do ... while (buffin.pos < buffin.size)\<close>) with the input
  \<open>buf\<close> and the position \<open>pos\<close> reached in it.\<close>

partial_function (option) write_loop ::
  "('n::len, 'c) zenv \<Rightarrow> nat \<Rightarrow> byte list \<Rightarrow> nat \<Rightarrow> ('n, 'c) writer \<Rightarrow> world \<Rightarrow>
     (bool \<times> ('n, 'c) writer \<times> world) option" where
  "write_loop env bout_len buf pos w wd =
     (case compressStream2 env (cctx w) bout_len buf pos ZSTD_e_continue of
        Inl e \<Rightarrow> Some (False, w, diag (''nio_archive_write: compress: '' @ e) wd)
      | Inr r \<Rightarrow>
          let w1 = w\<lparr>cctx := cs_cctx r, frame_cm := frame_cm w + of_nat (length (cs_out r))\<rparr>;
              (written, f, wd1) = fwrite env (cs_out r) (fout w1) wd;
              w2 = w1\<lparr>fout := f\<rparr>
          in if written < length (cs_out r)
             then Some (False, w2, diag ''nio_archive_write: write to file'' wd1)
             else if cs_in_pos r < length buf then write_loop env bout_len buf (cs_in_pos r) w2 wd1
             else Some (True, w2, wd1))"

text \<open>Lines 260 to 269: the threshold check, made once, before any input is fed.\<close>

definition write_threshold ::
  "('n::len, 'c) zenv \<Rightarrow> ('n, 'c) writer \<Rightarrow> world \<Rightarrow> (bool \<times> ('n, 'c) writer \<times> world) option" where
  "write_threshold env w wd =
     (if frame_uc w \<ge> min_frame_size w
      then (case end_frame env w wd of
              None \<Rightarrow> None
            | Some (False, w1, wd1) \<Rightarrow>
                Some (False, w1, diag ''nio_archive_write: end frame failed'' wd1)
            | Some (True, w1, wd1) \<Rightarrow> Some (True, w1, wd1))
      else Some (True, w, wd))"

text \<open>Lines 271 to 304: the output buffer is allocated and the input is fed.  On a
  failure inside the loop the buffer is freed (label \<^verbatim>\<open>fail_w_bout\<close>).\<close>

definition write_feed ::
  "('n::len, 'c) zenv \<Rightarrow> byte list \<Rightarrow> ('n, 'c) writer \<Rightarrow> world \<Rightarrow> (bool \<times> ('n, 'c) writer \<times> world) option" where
  "write_feed env buf w wd =
     (let bout_len = CStreamOutSize env;
          (ok, wd1) = malloc env R_buf wd
      in if \<not> ok then Some (False, w, diag ''nio_archive_write: allocate output buffer'' wd1)
         else
           case write_loop env bout_len buf 0 w wd1 of
             None \<Rightarrow> None
           | Some (False, w1, wd2) \<Rightarrow> Some (False, w1, release R_buf wd2)
           | Some (True, w1, wd2) \<Rightarrow> Some (True, w1, wd2))"

text \<open>The label \<^verbatim>\<open>fail_w_lock\<close> of \<^verbatim>\<open>nio_archive_write\<close>: the mutex is unlocked and the
  outcome of the unlocking is ignored.\<close>

definition write_fail_w_lock ::
  "('n::len, 'c) zenv \<Rightarrow> ('n, 'c) writer \<Rightarrow> world \<Rightarrow> ('n, 'c) writer \<times> world" where
  "write_fail_w_lock env w wd =
     (let (ok, wd1) = ext_call env X_mutex_unlock wd
      in (w\<lparr>lock := (if ok then False else lock w)\<rparr>, wd1))"

definition nio_archive_write ::
  "('n::len, 'c) zenv \<Rightarrow> byte list \<Rightarrow> ('n, 'c) writer \<Rightarrow> world \<Rightarrow> (bool \<times> ('n, 'c) writer \<times> world) option" where
  "nio_archive_write env buf w wd =
     (let (ok, wd1) = ext_call env X_mutex_lock wd
      in if \<not> ok then Some (False, w, diag ''nio_archive_write: lock mutex'' wd1)
         else
           case write_threshold env (w\<lparr>lock := True\<rparr>) wd1 of
             None \<Rightarrow> None
           | Some (False, w1, wd2) \<Rightarrow>
               (let (w2, wd3) = write_fail_w_lock env w1 wd2 in Some (False, w2, wd3))
           | Some (True, w1, wd2) \<Rightarrow>
               (case write_feed env buf w1 wd2 of
                  None \<Rightarrow> None
                | Some (False, w2, wd3) \<Rightarrow>
                    (let (w3, wd4) = write_fail_w_lock env w2 wd3 in Some (False, w3, wd4))
                | Some (True, w2, wd3) \<Rightarrow>
                    let w3 = w2\<lparr>frame_uc := frame_uc w2 + of_nat (length buf)\<rparr>;
                        wd4 = release R_buf wd3;
                        (ok, wd5) = ext_call env X_mutex_unlock wd4
                    in if \<not> ok
                       then Some (False, w3, diag ''nio_archive_write: unlock mutex'' wd5)
                       else Some (True, w3\<lparr>lock := False\<rparr>, wd5)))"

subsection \<open>\<^verbatim>\<open>nio_archive_writer_close\<close>\<close>

text \<open>The loop that writes the seek table (\<^verbatim>\<open>do ... while (rem > 0)\<close>).\<close>

partial_function (option) seek_table_loop ::
  "('n::len, 'c) zenv \<Rightarrow> nat \<Rightarrow> ('n, 'c) writer \<Rightarrow> world \<Rightarrow> (bool \<times> ('n, 'c) writer \<times> world) option" where
  "seek_table_loop env buf_len w wd =
     (case writeSeekTable env (entries (fl w)) (seekTablePos (fl w)) buf_len of
        Inl e \<Rightarrow> Some (False, w, diag (''nio_archive_writer_close: write seek table: '' @ e) wd)
      | Inr (out, pos, rem) \<Rightarrow>
          let w1 = w\<lparr>fl := (fl w)\<lparr>seekTablePos := pos\<rparr>\<rparr>;
              (written, f, wd1) = fwrite env out (fout w1) wd;
              w2 = w1\<lparr>fout := f\<rparr>
          in if written < length out
             then Some (False, w2, diag ''nio_archive_writer_close: write to file'' wd1)
             else if rem > 0 then seek_table_loop env buf_len w2 wd1
             else Some (True, w2, wd1))"

text \<open>The cleanup after the seek table: the file is closed, then the frame log, the
  mutex and the context are destroyed; the first step that fails returns at once.\<close>

definition close_cleanup :: "('sz, 'c) env \<Rightarrow> world \<Rightarrow> bool \<times> world" where
  "close_cleanup env wd =
     (let (ok, wd1) = ext_call env X_fclose wd in
      if \<not> ok then (False, diag ''nio_archive_writer_close: close file'' wd1)
      else
      let wd1 = release R_file wd1;
          (ok, wd2) = ext_call env X_freeFrameLog wd1 in
      if \<not> ok then (False, diag ''nio_archive_writer_close: free frame log'' wd2)
      else
      let wd2 = release R_framelog wd2;
          (ok, wd3) = ext_call env X_mutex_destroy wd2 in
      if \<not> ok then (False, diag ''nio_archive_writer_close: destroy mutex'' wd3)
      else
      let wd3 = release R_lock wd3;
          (ok, wd4) = ext_call env X_freeCCtx wd3 in
      if \<not> ok then (False, diag ''nio_archive_writer_close: free context'' wd4)
      else (True, release R_writer (release R_cctx wd4)))"

text \<open>The function returns the last state of the writer struct next to its result, so
  that the frame log that went into the seek table can be read.\<close>

definition nio_archive_writer_close ::
  "('n::len, 'c) zenv \<Rightarrow> ('n, 'c) writer \<Rightarrow> world \<Rightarrow> (bool \<times> ('n, 'c) writer \<times> world) option" where
  "nio_archive_writer_close env w wd =
     (case (if frame_uc w > 0 then end_frame env w wd else Some (True, w, wd)) of
        None \<Rightarrow> None
      | Some (False, w1, wd1) \<Rightarrow>
          Some (False, w1, diag ''nio_archive_writer_close: end frame failed'' wd1)
      | Some (True, w1, wd1) \<Rightarrow>
          (let (ok, wd2) = malloc env R_buf wd1
           in if \<not> ok
              then Some (False, w1, diag ''nio_archive_writer_close: allocate output buffer'' wd2)
              else
                (case seek_table_loop env 4096 w1 wd2 of
                   None \<Rightarrow> None
                 | Some (False, w2, wd3) \<Rightarrow> Some (False, w2, wd3)
                 | Some (True, w2, wd3) \<Rightarrow>
                     (let (ok, wd4) = close_cleanup env (release R_buf wd3)
                      in Some (ok, w2, wd4)))))"

subsection \<open>Callers, and what the claims speak about\<close>

text \<open>A caller that issues the writes in order and goes on only while they succeed.  It
  returns, next to the last state, the entries of the frame log after each write.\<close>

fun write_all ::
  "('n::len, 'c) zenv \<Rightarrow> byte list list \<Rightarrow> ('n, 'c) writer \<Rightarrow> world \<Rightarrow>
     ('n word frame_desc list list \<times> ('n, 'c) writer \<times> world) option" where
  "write_all env [] w wd = Some ([], w, wd)"
| "write_all env (b # bs) w wd =
     (case nio_archive_write env b w wd of
        Some (True, w1, wd1) \<Rightarrow>
          (case write_all env bs w1 wd1 of
             Some (logs, w2, wd2) \<Rightarrow> Some (entries (fl w1) # logs, w2, wd2)
           | None \<Rightarrow> None)
      | _ \<Rightarrow> None)"

text \<open>A whole run: open, the writes, close.  When every call succeeds the run yields the
  frame logs seen after each write and the entries that close put into the seek table.\<close>

definition session ::
  "('n::len, 'c) zenv \<Rightarrow> string \<Rightarrow> int \<Rightarrow> 'n word \<Rightarrow> byte list list \<Rightarrow> world \<Rightarrow>
     ('n word frame_desc list list \<times> 'n word frame_desc list) option" where
  "session env filename nb_workers mfs bufs wd =
     (case nio_archive_writer_open env filename nb_workers mfs wd of
        (None, wd1) \<Rightarrow> None
      | (Some w0, wd1) \<Rightarrow>
          (case write_all env bufs w0 wd1 of
             None \<Rightarrow> None
           | Some (logs, w, wd2) \<Rightarrow>
               (case nio_archive_writer_close env w wd2 of
                  Some (True, w', wd3) \<Rightarrow> Some (logs, entries (fl w'))
                | _ \<Rightarrow> None)))"

text \<open>The sum of \<open>uncompressed_size\<close> over a list of descriptors, as a natural number.\<close>

definition total_uncompressed :: "'n::len word frame_desc list \<Rightarrow> nat" where
  "total_uncompressed es = sum_list (map (\<lambda>d. unat (uncompressed_size d)) es)"

text \<open>The steps of \<^verbatim>\<open>nio_archive_writer_open\<close> that can fail, in the order of the source,
  and the resources the session holds when each step is tried.\<close>

definition open_steps :: "string \<Rightarrow> extcall list" where
  "open_steps filename =
     [X_malloc, X_createCCtx, X_setParameter ZSTD_c_compressionLevel,
      X_setParameter ZSTD_c_strategy, X_setParameter ZSTD_c_nbWorkers,
      X_mutex_init, X_createFrameLog, X_fopen filename]"

definition held_before :: "nat \<Rightarrow> resource list" where
  "held_before k =
     [[], [R_writer], [R_writer, R_cctx], [R_writer, R_cctx], [R_writer, R_cctx],
      [R_writer, R_cctx], [R_writer, R_cctx, R_lock],
      [R_writer, R_cctx, R_lock, R_framelog]] ! k"


subsection \<open>Two environments to run the writer in\<close>

text \<open>
  A compressor that stores: under \<^verbatim>\<open>ZSTD_e_continue\<close> it takes the whole input into
  its buffer and hands nothing out, as a compressor may that waits for a full block; under
  the other directives it hands out what it holds, as much as the output buffer takes.
\<close>

definition buf_compress ::
  "byte list \<Rightarrow> nat \<Rightarrow> byte list \<Rightarrow> nat \<Rightarrow> ZSTD_EndDirective \<Rightarrow> string + ('n::len word, byte list) cs_result" where
  "buf_compress c cap src pos d =
     (let held = c @ drop pos src
      in case d of
           ZSTD_e_continue \<Rightarrow>
             Inr \<lparr>cs_cctx = held, cs_out = [], cs_in_pos = length src, cs_rem = 0\<rparr>
         | _ \<Rightarrow>
             Inr \<lparr>cs_cctx = drop cap held, cs_out = take cap held, cs_in_pos = length src,
                  cs_rem = (if drop cap held = [] then 0 else 1)\<rparr>)"

text \<open>A codec that writes one byte for each entry, all at once.\<close>

definition unit_codec :: "'sz::zero frame_desc list \<Rightarrow> nat \<Rightarrow> nat \<Rightarrow> string + (byte list \<times> nat \<times> 'sz)" where
  "unit_codec es pos cap = Inr (replicate (length es) 0, length es, 0)"

text \<open>The environment in which no call fails, with an output buffer of \<open>cap\<close> bytes.\<close>

definition benv :: "nat \<Rightarrow> ('n::len, byte list) zenv" where
  "benv cap =
     \<lparr>fails = (\<lambda>t c. False), fwrite_count = (\<lambda>t n. n), CStreamOutSize = cap,
      createCCtx = [], setParameter = (\<lambda>c p v. c), compressStream2 = buf_compress,
      buffered = length, writeSeekTable = unit_codec\<rparr>"

text \<open>A compressor that passes its input through at once, one output buffer at a time,
  and an environment with it in which the \<^verbatim>\<open>fwrite\<close> made at clock 3 writes nothing.\<close>

definition pass_compress ::
  "unit \<Rightarrow> nat \<Rightarrow> byte list \<Rightarrow> nat \<Rightarrow> ZSTD_EndDirective \<Rightarrow> string + ('n::len word, unit) cs_result" where
  "pass_compress c cap src pos d =
     Inr \<lparr>cs_cctx = (), cs_out = take cap (drop pos src),
          cs_in_pos = min (length src) (pos + cap), cs_rem = 0\<rparr>"

definition penv :: "('n::len, unit) zenv" where
  "penv =
     \<lparr>fails = (\<lambda>t c. False), fwrite_count = (\<lambda>t n. if t = 3 then 0 else n), CStreamOutSize = 4,
      createCCtx = (), setParameter = (\<lambda>c p v. c), compressStream2 = pass_compress,
      buffered = (\<lambda>c. 0), writeSeekTable = unit_codec\<rparr>"

text \<open>The environment \<open>benv\<close> with one call made to fail.\<close>

definition failing :: "extcall \<Rightarrow> ('n::len, byte list) zenv" where
  "failing x = (benv 4)\<lparr>fails := (\<lambda>t c. c = x)\<rparr>"

text \<open>The world before the first call, and a buffer of one GiB.\<close>

definition wd0 :: world where
  "wd0 = \<lparr>clock = 0, stderr = [], errbuf = ''caller text'', events = []\<rparr>"

definition GiB_buf :: "byte list" where
  "GiB_buf = replicate (2 ^ 30) 0"

subsection \<open>The turns of the two loops\<close>

text \<open>
  A turn of the drain loop of \<^verbatim>\<open>end_frame\<close> after which the loop goes on: the compressor
  gave no error, its whole output reached the file, and it reports that something remains.
  \<open>drain_turns env buf_len k\<close> is the state after \<open>k\<close> such turns, if the loop makes
  them.  The lemmas of the section on the turns tie both to \<open>end_frame_loop\<close>.
\<close>

definition drain_turn ::
  "('n::len, 'c) zenv \<Rightarrow> nat \<Rightarrow> ('n, 'c) writer \<Rightarrow> world \<Rightarrow> (('n, 'c) writer \<times> world) option" where
  "drain_turn env buf_len w wd =
     (case compressStream2 env (cctx w) buf_len [] 0 ZSTD_e_end of
        Inl e \<Rightarrow> None
      | Inr r \<Rightarrow>
          let w1 = w\<lparr>cctx := cs_cctx r, frame_cm := frame_cm w + of_nat (length (cs_out r))\<rparr>;
              (written, f, wd1) = fwrite env (cs_out r) (fout w1) wd
          in if written < length (cs_out r) then None
             else if cs_rem r > 0 then Some (w1\<lparr>fout := f\<rparr>, wd1)
             else None)"

fun drain_turns ::
  "('n::len, 'c) zenv \<Rightarrow> nat \<Rightarrow> nat \<Rightarrow> ('n, 'c) writer \<Rightarrow> world \<Rightarrow> (('n, 'c) writer \<times> world) option" where
  "drain_turns env buf_len 0 w wd = Some (w, wd)"
| "drain_turns env buf_len (Suc k) w wd =
     (case drain_turn env buf_len w wd of
        None \<Rightarrow> None
      | Some (w1, wd1) \<Rightarrow> drain_turns env buf_len k w1 wd1)"



subsection \<open>Environments in which a loop fails\<close>

text \<open>The storing compressor, made to report an error under \<^verbatim>\<open>ZSTD_e_end\<close> when the
  first byte it holds is 255.\<close>

definition poison_compress ::
  "byte list \<Rightarrow> nat \<Rightarrow> byte list \<Rightarrow> nat \<Rightarrow> ZSTD_EndDirective \<Rightarrow> string + ('n::len word, byte list) cs_result" where
  "poison_compress c cap src pos d =
     (if d = ZSTD_e_end \<and> take 1 (c @ drop pos src) = [255] then Inl ''Error (generic)''
      else buf_compress c cap src pos d)"

definition poisoned :: "('n::len, byte list) zenv" where
  "poisoned = (benv 4)\<lparr>compressStream2 := poison_compress\<rparr>"

text \<open>The environment \<open>benv 4\<close> in which the \<^verbatim>\<open>fwrite\<close> made at clock \<open>t0\<close> writes one
  byte only.\<close>

definition short_write :: "nat \<Rightarrow> ('n::len, byte list) zenv" where
  "short_write t0 = (benv 4)\<lparr>fwrite_count := (\<lambda>t n. if t = t0 then 1 else n)\<rparr>"

text \<open>The passing compressor in an environment in which no call fails.\<close>

definition passing :: "('n::len, unit) zenv" where
  "passing = penv\<lparr>fwrite_count := (\<lambda>t n. n)\<rparr>"

section \<open>Properties\<close>

lemmas end_frame_loop_induct = end_frame_loop.raw_induct[rotated 1, consumes 1, case_names step]
lemmas write_loop_induct = write_loop.raw_induct[rotated 1, consumes 1, case_names step]
lemmas seek_table_loop_induct = seek_table_loop.raw_induct[rotated 1, consumes 1, case_names step]

subsection \<open>The loops\<close>

text \<open>Each loop changes the compression context, the file and \<open>frame_cm\<close> only, prints
  one line when it fails, and counts in \<open>frame_cm\<close> the bytes it put into the file.\<close>

lemma end_frame_loop_keeps:
  assumes "end_frame_loop env n w wd = Some (ok, w', wd')"
  shows "frame_uc w' = frame_uc w \<and> fl w' = fl w \<and> min_frame_size w' = min_frame_size w
       \<and> lock w' = lock w \<and> errbuf wd' = errbuf wd \<and> events wd' = events wd"
proof -
  have "frame_uc (fst (snd y)) = frame_uc w \<and> fl (fst (snd y)) = fl w
       \<and> min_frame_size (fst (snd y)) = min_frame_size w \<and> lock (fst (snd y)) = lock w
       \<and> errbuf (snd (snd y)) = errbuf wd \<and> events (snd (snd y)) = events wd"
    if "end_frame_loop env n w wd = Some y" for y
    using that
  proof (induction env n w wd y rule: end_frame_loop_induct)
    case (step lp env n w wd y)
    show ?case using step.hyps
      apply (simp split: sum.splits if_splits prod.splits add: Let_def fwrite_def diag_def)
      apply (auto dest!: step.IH)
      done
  qed
  from this [OF assms] show ?thesis by simp
qed

lemma end_frame_loop_stderr:
  assumes "end_frame_loop env n w wd = Some (ok, w', wd')"
  shows "if ok then stderr wd' = stderr wd else (\<exists>m. stderr wd' = stderr wd @ [m])"
proof -
  have "if fst y then stderr (snd (snd y)) = stderr wd else (\<exists>m. stderr (snd (snd y)) = stderr wd @ [m])"
    if "end_frame_loop env n w wd = Some y" for y
    using that
  proof (induction env n w wd y rule: end_frame_loop_induct)
    case (step lp env n w wd y)
    show ?case using step.hyps
      apply (simp split: sum.splits if_splits prod.splits add: Let_def fwrite_def diag_def)
      apply (auto dest!: step.IH split: if_splits)
      done
  qed
  from this [OF assms] show ?thesis by (auto split: if_splits)
qed

lemma end_frame_loop_sink:
  assumes "end_frame_loop env n w wd = Some (ok, w', wd')"
  shows "\<exists>bs. fout w' = fout w @ bs \<and> (ok \<longrightarrow> frame_cm w' = frame_cm w + of_nat (length bs))"
proof -
  have "\<exists>bs. fout (fst (snd y)) = fout w @ bs
          \<and> (fst y \<longrightarrow> frame_cm (fst (snd y)) = frame_cm w + of_nat (length bs))"
    if "end_frame_loop env n w wd = Some y" for y
    using that
  proof (induction env n w wd y rule: end_frame_loop_induct)
    case (step lp env n w wd y)
    show ?case using step.hyps
      apply (simp split: sum.splits if_splits prod.splits add: Let_def fwrite_def diag_def)
      apply (auto dest!: step.IH simp: min_def split: if_splits)
      done
  qed
  from this [OF assms] show ?thesis by simp
qed


lemma write_loop_keeps:
  assumes "write_loop env n buf pos w wd = Some (ok, w', wd')"
  shows "frame_uc w' = frame_uc w \<and> fl w' = fl w \<and> min_frame_size w' = min_frame_size w
       \<and> lock w' = lock w \<and> errbuf wd' = errbuf wd \<and> events wd' = events wd"
proof -
  have "frame_uc (fst (snd y)) = frame_uc w \<and> fl (fst (snd y)) = fl w
       \<and> min_frame_size (fst (snd y)) = min_frame_size w \<and> lock (fst (snd y)) = lock w
       \<and> errbuf (snd (snd y)) = errbuf wd \<and> events (snd (snd y)) = events wd"
    if "write_loop env n buf pos w wd = Some y" for y
    using that
  proof (induction env n buf pos w wd y rule: write_loop_induct)
    case (step lp env n buf pos w wd y)
    show ?case using step.hyps
      apply (simp split: sum.splits if_splits prod.splits add: Let_def fwrite_def diag_def)
      apply (auto dest!: step.IH)
      done
  qed
  from this [OF assms] show ?thesis by simp
qed

lemma write_loop_stderr:
  assumes "write_loop env n buf pos w wd = Some (ok, w', wd')"
  shows "if ok then stderr wd' = stderr wd else (\<exists>m. stderr wd' = stderr wd @ [m])"
proof -
  have "if fst y then stderr (snd (snd y)) = stderr wd else (\<exists>m. stderr (snd (snd y)) = stderr wd @ [m])"
    if "write_loop env n buf pos w wd = Some y" for y
    using that
  proof (induction env n buf pos w wd y rule: write_loop_induct)
    case (step lp env n buf pos w wd y)
    show ?case using step.hyps
      apply (simp split: sum.splits if_splits prod.splits add: Let_def fwrite_def diag_def)
      apply (auto dest!: step.IH split: if_splits)
      done
  qed
  from this [OF assms] show ?thesis by (auto split: if_splits)
qed


lemma seek_table_loop_keeps:
  assumes "seek_table_loop env n w wd = Some (ok, w', wd')"
  shows "frame_uc w' = frame_uc w \<and> frame_cm w' = frame_cm w \<and> entries (fl w') = entries (fl w)
       \<and> cctx w' = cctx w \<and> min_frame_size w' = min_frame_size w
       \<and> lock w' = lock w \<and> errbuf wd' = errbuf wd \<and> events wd' = events wd"
proof -
  have "frame_uc (fst (snd y)) = frame_uc w \<and> frame_cm (fst (snd y)) = frame_cm w
       \<and> entries (fl (fst (snd y))) = entries (fl w) \<and> cctx (fst (snd y)) = cctx w
       \<and> min_frame_size (fst (snd y)) = min_frame_size w \<and> lock (fst (snd y)) = lock w
       \<and> errbuf (snd (snd y)) = errbuf wd \<and> events (snd (snd y)) = events wd"
    if "seek_table_loop env n w wd = Some y" for y
    using that
  proof (induction env n w wd y rule: seek_table_loop_induct)
    case (step lp env n w wd y)
    show ?case using step.hyps
      apply (simp split: sum.splits if_splits prod.splits add: Let_def fwrite_def diag_def)
      apply (auto dest!: step.IH)
      done
  qed
  from this [OF assms] show ?thesis by simp
qed

lemma seek_table_loop_stderr:
  assumes "seek_table_loop env n w wd = Some (ok, w', wd')"
  shows "if ok then stderr wd' = stderr wd else (\<exists>m. stderr wd' = stderr wd @ [m])"
proof -
  have "if fst y then stderr (snd (snd y)) = stderr wd else (\<exists>m. stderr (snd (snd y)) = stderr wd @ [m])"
    if "seek_table_loop env n w wd = Some y" for y
    using that
  proof (induction env n w wd y rule: seek_table_loop_induct)
    case (step lp env n w wd y)
    show ?case using step.hyps
      apply (simp split: sum.splits if_splits prod.splits add: Let_def fwrite_def diag_def)
      apply (auto dest!: step.IH split: if_splits)
      done
  qed
  from this [OF assms] show ?thesis by (auto split: if_splits)
qed

subsection \<open>The collaborator calls\<close>

lemma ext_call_world [simp]:
  "stderr (snd (ext_call env c wd)) = stderr wd"
  "errbuf (snd (ext_call env c wd)) = errbuf wd"
  "events (snd (ext_call env c wd)) = events wd"
  "clock (snd (ext_call env c wd)) = Suc (clock wd)"
  "fst (ext_call env c wd) = (\<not> fails env (clock wd) c)"
  by (simp_all add: ext_call_def)

lemma malloc_world [simp]:
  "stderr (snd (malloc env r wd)) = stderr wd"
  "errbuf (snd (malloc env r wd)) = errbuf wd"
  "clock (snd (malloc env r wd)) = Suc (clock wd)"
  "fst (malloc env r wd) = (\<not> fails env (clock wd) X_malloc)"
  by (simp_all add: malloc_def ext_call_def acquire_def)

lemma diag_world [simp]:
  "stderr (diag m wd) = stderr wd @ [m]"
  "errbuf (diag m wd) = errbuf wd"
  "events (diag m wd) = events wd"
  "clock (diag m wd) = clock wd"
  by (simp_all add: diag_def)

lemma release_world [simp]:
  "stderr (release r wd) = stderr wd"
  "errbuf (release r wd) = errbuf wd"
  "events (release r wd) = events wd @ [Release r]"
  "clock (release r wd) = clock wd"
  by (simp_all add: release_def)

lemma acquire_world [simp]:
  "stderr (acquire r wd) = stderr wd"
  "errbuf (acquire r wd) = errbuf wd"
  "events (acquire r wd) = events wd @ [Acquire r]"
  "clock (acquire r wd) = clock wd"
  by (simp_all add: acquire_def)

lemma logFrame_simps [simp]:
  "fst (ZSTD_seekable_logFrame env l cm uc cs wd) = (\<not> fails env (clock wd) X_logFrame)"
  "fst (snd (ZSTD_seekable_logFrame env l cm uc cs wd)) =
     (if fails env (clock wd) X_logFrame then l
      else l\<lparr>entries := entries l @
             [\<lparr>compressed_size = cm, uncompressed_size = uc, checksum = cs\<rparr>]\<rparr>)"
  "snd (snd (ZSTD_seekable_logFrame env l cm uc cs wd)) = snd (ext_call env X_logFrame wd)"
  by (simp_all add: ZSTD_seekable_logFrame_def ext_call_def)

subsection \<open>Frame finalization\<close>

lemma end_frame_True:
  assumes "end_frame env w wd = Some (True, w', wd')"
  shows "\<exists>bs. fout w' = fout w @ bs
           \<and> entries (fl w') = entries (fl w) @
               [\<lparr>compressed_size = frame_cm w + of_nat (length bs),
                 uncompressed_size = frame_uc w, checksum = 0\<rparr>]
           \<and> frame_uc w' = 0 \<and> frame_cm w' = 0
           \<and> min_frame_size w' = min_frame_size w \<and> lock w' = lock w
           \<and> errbuf wd' = errbuf wd \<and> stderr wd' = stderr wd"
proof -
  from assms obtain w1 wd1 wd2 where
      loop: "end_frame_loop env (CStreamOutSize env) w wd1 = Some (True, w1, wd2)"
      and wd1: "wd1 = snd (malloc env R_buf wd)"
      and logged: "fst (ZSTD_seekable_logFrame env (fl w1) (frame_cm w1) (frame_uc w1) 0 wd2)"
      and w': "w' = w1\<lparr>fl := fst (snd (ZSTD_seekable_logFrame env (fl w1) (frame_cm w1) (frame_uc w1) 0 wd2)),
                      frame_uc := 0, frame_cm := 0\<rparr>"
      and wd': "wd' = release R_buf (snd (snd (ZSTD_seekable_logFrame env (fl w1) (frame_cm w1) (frame_uc w1) 0 wd2)))"
    by (auto simp: end_frame_def Let_def split_beta split: if_splits option.splits bool.splits)
  from end_frame_loop_sink [OF loop] obtain bs where
      bs: "fout w1 = fout w @ bs" "frame_cm w1 = frame_cm w + of_nat (length bs)"
    by auto
  note keeps = end_frame_loop_keeps [OF loop]
  note err = end_frame_loop_stderr [OF loop]
  show ?thesis
    using logged bs keeps err
    by (intro exI [of _ bs])
       (simp add: w' wd' wd1)
qed

lemma end_frame_False:
  assumes "end_frame env w wd = Some (False, w', wd')"
  shows "fl w' = fl w \<and> frame_uc w' = frame_uc w
       \<and> (w' = w \<or> (\<exists>ok wd1 wd2. end_frame_loop env (CStreamOutSize env) w wd1 = Some (ok, w', wd2)))
       \<and> min_frame_size w' = min_frame_size w \<and> lock w' = lock w
       \<and> errbuf wd' = errbuf wd \<and> (\<exists>m. stderr wd' = stderr wd @ [m])"
proof (cases "fails env (clock wd) X_malloc")
  case True
  with assms show ?thesis
    by (auto simp: end_frame_def Let_def split_beta)
next
  case False
  with assms obtain ok w1 wd2 where
      loop: "end_frame_loop env (CStreamOutSize env) w (snd (malloc env R_buf wd)) = Some (ok, w1, wd2)"
    by (auto simp: end_frame_def Let_def split_beta split: option.splits)
  note keeps = end_frame_loop_keeps [OF loop]
  note err = end_frame_loop_stderr [OF loop]
  show ?thesis
  proof (cases ok)
    case True
    with assms False loop keeps err show ?thesis
      by (auto simp: end_frame_def Let_def split_beta split: if_splits)
  next
    case not_ok: False
    with assms False loop keeps err show ?thesis
      by (auto simp: end_frame_def Let_def split_beta split: if_splits)
  qed
qed


subsection \<open>The stages of a write\<close>

lemma write_threshold_True:
  assumes "write_threshold env w wd = Some (True, w', wd')"
  shows "if min_frame_size w \<le> frame_uc w then end_frame env w wd = Some (True, w', wd')
         else w' = w \<and> wd' = wd"
  using assms
  by (auto simp: write_threshold_def split: if_splits option.splits bool.splits)

lemma write_threshold_False:
  assumes "write_threshold env w wd = Some (False, w', wd')"
  shows "min_frame_size w \<le> frame_uc w
       \<and> (\<exists>wd1. end_frame env w wd = Some (False, w', wd1) \<and> wd' = diag ''nio_archive_write: end frame failed'' wd1)"
  using assms
  by (auto simp: write_threshold_def split: if_splits option.splits bool.splits)

lemma write_feed_keeps:
  assumes "write_feed env buf w wd = Some (ok, w', wd')"
  shows "frame_uc w' = frame_uc w \<and> fl w' = fl w \<and> min_frame_size w' = min_frame_size w
       \<and> lock w' = lock w \<and> errbuf wd' = errbuf wd
       \<and> (if ok then stderr wd' = stderr wd else (\<exists>m. stderr wd' = stderr wd @ [m]))"
proof (cases "fails env (clock wd) X_malloc")
  case True
  with assms show ?thesis
    by (auto simp: write_feed_def Let_def split_beta)
next
  case False
  with assms obtain ok1 w1 wd2 where
      loop: "write_loop env (CStreamOutSize env) buf 0 w (snd (malloc env R_buf wd)) = Some (ok1, w1, wd2)"
    by (auto simp: write_feed_def Let_def split_beta split: option.splits)
  note keeps = write_loop_keeps [OF loop]
  note err = write_loop_stderr [OF loop]
  show ?thesis
  proof (cases ok1)
    case True
    with assms False loop keeps err show ?thesis
      by (auto simp: write_feed_def Let_def split_beta split: if_splits)
  next
    case not_ok: False
    with assms False loop keeps err show ?thesis
      by (auto simp: write_feed_def Let_def split_beta split: if_splits)
  qed
qed


lemma write_fail_w_lock_keeps [simp]:
  "frame_uc (fst (write_fail_w_lock env w wd)) = frame_uc w"
  "frame_cm (fst (write_fail_w_lock env w wd)) = frame_cm w"
  "fl (fst (write_fail_w_lock env w wd)) = fl w"
  "fout (fst (write_fail_w_lock env w wd)) = fout w"
  "cctx (fst (write_fail_w_lock env w wd)) = cctx w"
  "min_frame_size (fst (write_fail_w_lock env w wd)) = min_frame_size w"
  "errbuf (snd (write_fail_w_lock env w wd)) = errbuf wd"
  "stderr (snd (write_fail_w_lock env w wd)) = stderr wd"
  by (simp_all add: write_fail_w_lock_def Let_def split_beta)

text \<open>The whole of a successful write, in its stages.\<close>

lemma nio_archive_write_True:
  assumes "nio_archive_write env buf w wd = Some (True, w', wd')"
  shows "\<exists>w1 wd1 w2 wd2.
           write_threshold env (w\<lparr>lock := True\<rparr>) (snd (ext_call env X_mutex_lock wd)) = Some (True, w1, wd1)
         \<and> write_feed env buf w1 wd1 = Some (True, w2, wd2)
         \<and> w' = w2\<lparr>frame_uc := frame_uc w2 + of_nat (length buf), lock := False\<rparr>
         \<and> wd' = snd (ext_call env X_mutex_unlock (release R_buf wd2))"
  using assms
  by (auto simp: nio_archive_write_def Let_def split_beta
           split: if_splits option.splits bool.splits)

lemma nio_archive_write_effect:
  assumes "nio_archive_write env buf w wd = Some (True, w', wd')"
  shows "frame_uc w' = (if min_frame_size w \<le> frame_uc w then 0 else frame_uc w) + of_nat (length buf)
       \<and> (if min_frame_size w \<le> frame_uc w
          then (\<exists>cm. entries (fl w') = entries (fl w) @
                  [\<lparr>compressed_size = cm, uncompressed_size = frame_uc w, checksum = 0\<rparr>])
          else entries (fl w') = entries (fl w))
       \<and> min_frame_size w' = min_frame_size w"
proof -
  from nio_archive_write_True [OF assms] obtain w1 wd1 w2 wd2 where
      thr: "write_threshold env (w\<lparr>lock := True\<rparr>) (snd (ext_call env X_mutex_lock wd)) = Some (True, w1, wd1)"
      and feed: "write_feed env buf w1 wd1 = Some (True, w2, wd2)"
      and w': "w' = w2\<lparr>frame_uc := frame_uc w2 + of_nat (length buf), lock := False\<rparr>"
    by blast
  note fk = write_feed_keeps [OF feed]
  show ?thesis
  proof (cases "min_frame_size w \<le> frame_uc w")
    case True
    with write_threshold_True [OF thr]
    have "end_frame env (w\<lparr>lock := True\<rparr>) (snd (ext_call env X_mutex_lock wd)) = Some (True, w1, wd1)"
      by simp
    from end_frame_True [OF this] True fk show ?thesis
      by (auto simp: w')
  next
    case False
    with write_threshold_True [OF thr] have "w1 = w\<lparr>lock := True\<rparr>" by simp
    with False fk show ?thesis
      by (simp add: w')
  qed
qed


subsection \<open>Accounting of the uncompressed bytes\<close>

lemma total_uncompressed_snoc [simp]:
  "total_uncompressed (es @ [d]) = total_uncompressed es + unat (uncompressed_size d)"
  by (simp add: total_uncompressed_def)

lemma total_uncompressed_Nil [simp]: "total_uncompressed [] = 0"
  by (simp add: total_uncompressed_def)




subsection \<open>Runs in the environment without failures\<close>

lemma benv_fields [simp]:
  "fails (benv cap) t x = False"
  "fwrite_count (benv cap) t n = n"
  "CStreamOutSize (benv cap) = cap"
  "createCCtx (benv cap) = []"
  "setParameter (benv cap) c p v = c"
  "compressStream2 (benv cap) = buf_compress"
  "buffered (benv cap) = length"
  "writeSeekTable (benv cap) = unit_codec"
  by (simp_all add: benv_def)

lemma benv_write_loop:
  "write_loop (benv cap) n buf 0 w wd =
     Some (True, w\<lparr>cctx := cctx w @ buf\<rparr>, wd\<lparr>clock := Suc (clock wd)\<rparr>)"
  by (subst write_loop.simps) (simp add: buf_compress_def fwrite_def Let_def)

lemma benv_end_frame_loop:
  "length (cctx w) \<le> n \<Longrightarrow>
   end_frame_loop (benv cap) n w wd =
     Some (True, w\<lparr>fout := fout w @ cctx w, cctx := [],
                   frame_cm := frame_cm w + of_nat (length (cctx w))\<rparr>,
           wd\<lparr>clock := Suc (clock wd)\<rparr>)"
  by (subst end_frame_loop.simps) (simp add: buf_compress_def fwrite_def Let_def)

lemma benv_end_frame:
  "length (cctx w) \<le> cap \<Longrightarrow>
   end_frame (benv cap) w wd =
     Some (True,
           w\<lparr>fout := fout w @ cctx w, cctx := [], frame_uc := 0, frame_cm := 0,
             fl := (fl w)\<lparr>entries := entries (fl w) @
                     [\<lparr>compressed_size = frame_cm w + of_nat (length (cctx w)),
                       uncompressed_size = frame_uc w, checksum = 0\<rparr>]\<rparr>\<rparr>,
           wd\<lparr>clock := clock wd + 3, events := events wd @ [Acquire R_buf, Release R_buf]\<rparr>)"
  by (simp add: end_frame_def benv_end_frame_loop Let_def malloc_def ext_call_def
        ZSTD_seekable_logFrame_def acquire_def release_def)

lemma benv_write_below:
  "frame_uc w < min_frame_size w \<Longrightarrow>
   nio_archive_write (benv cap) buf w wd =
     Some (True,
           w\<lparr>cctx := cctx w @ buf, lock := False, frame_uc := frame_uc w + of_nat (length buf)\<rparr>,
           wd\<lparr>clock := clock wd + 4, events := events wd @ [Acquire R_buf, Release R_buf]\<rparr>)"
  by (simp add: nio_archive_write_def write_threshold_def write_feed_def benv_write_loop
        Let_def malloc_def ext_call_def acquire_def release_def not_le [symmetric])

lemma benv_write_reached:
  "min_frame_size w \<le> frame_uc w \<Longrightarrow> length (cctx w) \<le> cap \<Longrightarrow>
   nio_archive_write (benv cap) buf w wd =
     Some (True,
           w\<lparr>fout := fout w @ cctx w, cctx := buf, lock := False,
             frame_uc := of_nat (length buf), frame_cm := 0,
             fl := (fl w)\<lparr>entries := entries (fl w) @
                     [\<lparr>compressed_size = frame_cm w + of_nat (length (cctx w)),
                       uncompressed_size = frame_uc w, checksum = 0\<rparr>]\<rparr>\<rparr>,
           wd\<lparr>clock := clock wd + 7,
              events := events wd @ [Acquire R_buf, Release R_buf, Acquire R_buf, Release R_buf]\<rparr>)"
  by (simp add: nio_archive_write_def write_threshold_def write_feed_def benv_write_loop
        benv_end_frame Let_def malloc_def ext_call_def acquire_def release_def)

lemma benv_seek_table_loop:
  "seek_table_loop (benv cap) n w wd =
     Some (True,
           w\<lparr>fout := fout w @ replicate (length (entries (fl w))) 0,
             fl := (fl w)\<lparr>seekTablePos := length (entries (fl w))\<rparr>\<rparr>,
           wd\<lparr>clock := Suc (clock wd)\<rparr>)"
  by (subst seek_table_loop.simps) (simp add: unit_codec_def fwrite_def Let_def)

lemma benv_close_cleanup:
  "close_cleanup (benv cap) wd =
     (True, wd\<lparr>clock := clock wd + 4,
               events := events wd @ [Release R_file, Release R_framelog, Release R_lock,
                                       Release R_cctx, Release R_writer]\<rparr>)"
  by (simp add: close_cleanup_def Let_def ext_call_def release_def)

lemma benv_close_pending:
  "0 < frame_uc w \<Longrightarrow> length (cctx w) \<le> cap \<Longrightarrow>
   nio_archive_writer_close (benv cap) w wd =
     Some (True,
           w\<lparr>fout := fout w @ cctx w @ replicate (Suc (length (entries (fl w)))) 0, cctx := [],
             frame_uc := 0, frame_cm := 0,
             fl := \<lparr>entries = entries (fl w) @
                      [\<lparr>compressed_size = frame_cm w + of_nat (length (cctx w)),
                        uncompressed_size = frame_uc w, checksum = 0\<rparr>],
                    seekTablePos = Suc (length (entries (fl w)))\<rparr>\<rparr>,
           wd\<lparr>clock := clock wd + 9,
              events := events wd @ [Acquire R_buf, Release R_buf, Acquire R_buf, Release R_buf,
                         Release R_file, Release R_framelog, Release R_lock,
                         Release R_cctx, Release R_writer]\<rparr>)"
  by (simp add: nio_archive_writer_close_def benv_end_frame benv_seek_table_loop benv_close_cleanup
        Let_def malloc_def ext_call_def acquire_def release_def)

lemma benv_close_empty:
  "frame_uc w = 0 \<Longrightarrow>
   nio_archive_writer_close (benv cap) w wd =
     Some (True,
           w\<lparr>fout := fout w @ replicate (length (entries (fl w))) 0,
             fl := (fl w)\<lparr>seekTablePos := length (entries (fl w))\<rparr>\<rparr>,
           wd\<lparr>clock := clock wd + 6,
              events := events wd @ [Acquire R_buf, Release R_buf,
                         Release R_file, Release R_framelog, Release R_lock,
                         Release R_cctx, Release R_writer]\<rparr>)"
  by (simp add: nio_archive_writer_close_def benv_seek_table_loop benv_close_cleanup
        Let_def malloc_def ext_call_def acquire_def release_def)

lemma benv_open:
  "nio_archive_writer_open (benv cap) filename nbw mfs wd =
     (Some \<lparr>fout = [], cctx = [], lock = False, frame_uc = 0, frame_cm = 0,
            min_frame_size = mfs, fl = \<lparr>entries = [], seekTablePos = 0\<rparr>\<rparr>,
      wd\<lparr>clock := clock wd + 8,
         events := events wd @ [Acquire R_writer, Acquire R_cctx, Acquire R_lock,
                                 Acquire R_framelog, Acquire R_file]\<rparr>)"
  by (simp add: nio_archive_writer_open_def Let_def malloc_def ext_call_def acquire_def)

section \<open>The claims\<close>

subsection \<open>C1: the seek table accounts for every byte written\<close>

lemma length_GiB_buf [simp]: "length GiB_buf = 1073741824"
  by (simp add: GiB_buf_def)




subsection \<open>The environment with one failing call\<close>

lemma failing_fields [simp]:
  "fails (failing x) t c = (c = x)"
  "fwrite_count (failing x) t n = n"
  "CStreamOutSize (failing x) = 4"
  "createCCtx (failing x) = []"
  "setParameter (failing x) c' p v = c'"
  "compressStream2 (failing x) = buf_compress"
  "buffered (failing x) = length"
  "writeSeekTable (failing x) = unit_codec"
  by (simp_all add: failing_def benv_def)

subsection \<open>C9: a failed feed leaves \<open>frame_uc\<close> alone\<close>

lemma penv_fields [simp]:
  "fails penv t x = False"
  "fwrite_count penv t n = (if t = 3 then 0 else n)"
  "CStreamOutSize penv = 4"
  "compressStream2 penv = pass_compress"
  by (simp_all add: penv_def)

text \<open>
  C9.  When the mutex was locked and the threshold check has succeeded, leaving the writer
  \<open>w1\<close>, and then the feed (the allocation of the output buffer and the feed loop) fails,
  leaving the writer \<open>w2\<close>, the write returns failure with \<open>frame_uc\<close> as it was in
  \<open>w1\<close>, while \<open>frame_cm\<close> and the file are as the failed feed left them.
\<close>

theorem C9_failed_feed_keeps_frame_uc:
  assumes locked: "\<not> fails env (clock wd) X_mutex_lock"
    and thr: "write_threshold env (w\<lparr>lock := True\<rparr>) (snd (ext_call env X_mutex_lock wd))
                = Some (True, w1, wd1)"
    and feed: "write_feed env buf w1 wd1 = Some (False, w2, wd2)"
  shows "\<exists>w' wd'. nio_archive_write env buf w wd = Some (False, w', wd')
           \<and> frame_uc w' = frame_uc w1 \<and> frame_cm w' = frame_cm w2 \<and> fout w' = fout w2"
proof -
  obtain w3 wd3 where unlock: "write_fail_w_lock env w2 wd2 = (w3, wd3)"
    by (cases "write_fail_w_lock env w2 wd2")
  with write_fail_w_lock_keeps [of env w2 wd2]
  have same: "frame_uc w3 = frame_uc w2" "frame_cm w3 = frame_cm w2" "fout w3 = fout w2"
    by simp_all
  from locked thr feed unlock
  have "nio_archive_write env buf w wd = Some (False, w3, wd3)"
    by (simp add: nio_archive_write_def Let_def split_beta)
  moreover from write_feed_keeps [OF feed] have "frame_uc w2 = frame_uc w1"
    by simp
  ultimately show ?thesis
    using same by simp
qed

text \<open>
  A run for C9: six bytes are fed through an output buffer of four bytes, and the second
  \<^verbatim>\<open>fwrite\<close> writes nothing.  The write fails; \<open>frame_uc\<close> is still 0, \<open>frame_cm\<close> has
  gone from 0 to 6 and four bytes have reached the file.
\<close>

theorem C9_failed_feed_keeps_frame_uc_witness:
  "\<not> fails (penv :: (64, unit) zenv) (clock wd0) X_mutex_lock
   \<and> write_threshold (penv :: (64, unit) zenv)
        (\<lparr>fout = [], cctx = (), lock = False, frame_uc = 0, frame_cm = 0, min_frame_size = 100,
          fl = \<lparr>entries = [], seekTablePos = 0\<rparr>\<rparr>\<lparr>lock := True\<rparr>)
        (snd (ext_call (penv :: (64, unit) zenv) X_mutex_lock wd0))
      = Some (True,
          \<lparr>fout = [], cctx = (), lock = True, frame_uc = 0, frame_cm = 0, min_frame_size = 100,
           fl = \<lparr>entries = [], seekTablePos = 0\<rparr>\<rparr>,
          \<lparr>clock = 1, stderr = [], errbuf = ''caller text'', events = []\<rparr>)
   \<and> write_feed (penv :: (64, unit) zenv) [1, 2, 3, 4, 5, 6]
        \<lparr>fout = [], cctx = (), lock = True, frame_uc = 0, frame_cm = 0, min_frame_size = 100,
         fl = \<lparr>entries = [], seekTablePos = 0\<rparr>\<rparr>
        \<lparr>clock = 1, stderr = [], errbuf = ''caller text'', events = []\<rparr>
      = Some (False,
          \<lparr>fout = [1, 2, 3, 4], cctx = (), lock = True, frame_uc = 0, frame_cm = 6,
           min_frame_size = 100, fl = \<lparr>entries = [], seekTablePos = 0\<rparr>\<rparr>,
          \<lparr>clock = 4, stderr = [''nio_archive_write: write to file''], errbuf = ''caller text'',
           events = [Acquire R_buf, Release R_buf]\<rparr>)
   \<and> nio_archive_write (penv :: (64, unit) zenv) [1, 2, 3, 4, 5, 6]
        \<lparr>fout = [], cctx = (), lock = False, frame_uc = 0, frame_cm = 0, min_frame_size = 100,
         fl = \<lparr>entries = [], seekTablePos = 0\<rparr>\<rparr> wd0
      = Some (False,
          \<lparr>fout = [1, 2, 3, 4], cctx = (), lock = False, frame_uc = 0, frame_cm = 6,
           min_frame_size = 100, fl = \<lparr>entries = [], seekTablePos = 0\<rparr>\<rparr>,
          \<lparr>clock = 5, stderr = [''nio_archive_write: write to file''], errbuf = ''caller text'',
           events = [Acquire R_buf, Release R_buf]\<rparr>)"
proof -
  let ?w = "\<lparr>fout = [], cctx = (), lock = False, frame_uc = 0, frame_cm = 0, min_frame_size = 100,
         fl = \<lparr>entries = [], seekTablePos = 0\<rparr>\<rparr> :: (64, unit) writer"
  let ?w1 = "\<lparr>fout = [], cctx = (), lock = True, frame_uc = 0, frame_cm = 0, min_frame_size = 100,
         fl = \<lparr>entries = [], seekTablePos = 0\<rparr>\<rparr> :: (64, unit) writer"
  let ?wd1 = "\<lparr>clock = 1, stderr = [], errbuf = ''caller text'', events = []\<rparr>"
  let ?w2 = "\<lparr>fout = [1, 2, 3, 4], cctx = (), lock = True, frame_uc = 0, frame_cm = 6,
           min_frame_size = 100, fl = \<lparr>entries = [], seekTablePos = 0\<rparr>\<rparr> :: (64, unit) writer"
  let ?wd2 = "\<lparr>clock = 4, stderr = [''nio_archive_write: write to file''], errbuf = ''caller text'',
           events = [Acquire R_buf, Release R_buf]\<rparr>"
  have locked: "\<not> fails (penv :: (64, unit) zenv) (clock wd0) X_mutex_lock"
    by simp
  have thr: "write_threshold (penv :: (64, unit) zenv) (?w\<lparr>lock := True\<rparr>)
        (snd (ext_call (penv :: (64, unit) zenv) X_mutex_lock wd0)) = Some (True, ?w1, ?wd1)"
    by (simp add: write_threshold_def ext_call_def wd0_def)
  have loop: "write_loop (penv :: (64, unit) zenv) 4 [1, 2, 3, 4, 5, 6] 0 ?w1
        \<lparr>clock = Suc (Suc 0), stderr = [], errbuf = ''caller text'', events = [Acquire R_buf]\<rparr>
      = Some (False, ?w2,
          \<lparr>clock = 4, stderr = [''nio_archive_write: write to file''], errbuf = ''caller text'',
           events = [Acquire R_buf]\<rparr>)"
    apply (subst write_loop.simps)
    apply (simp add: pass_compress_def fwrite_def Let_def)
    apply (subst write_loop.simps)
    apply (simp add: pass_compress_def fwrite_def Let_def diag_def)
    done
  have feed: "write_feed (penv :: (64, unit) zenv) [1, 2, 3, 4, 5, 6] ?w1 ?wd1 = Some (False, ?w2, ?wd2)"
    by (simp add: write_feed_def Let_def malloc_def ext_call_def acquire_def release_def loop)
  have whole: "nio_archive_write (penv :: (64, unit) zenv) [1, 2, 3, 4, 5, 6] ?w wd0
      = Some (False,
          \<lparr>fout = [1, 2, 3, 4], cctx = (), lock = False, frame_uc = 0, frame_cm = 6,
           min_frame_size = 100, fl = \<lparr>entries = [], seekTablePos = 0\<rparr>\<rparr>,
          \<lparr>clock = 5, stderr = [''nio_archive_write: write to file''], errbuf = ''caller text'',
           events = [Acquire R_buf, Release R_buf]\<rparr>)"
    using thr feed
    by (simp add: nio_archive_write_def Let_def split_beta write_fail_w_lock_def ext_call_def
          wd0_def)
  from C9_failed_feed_keeps_frame_uc [OF locked thr feed] locked thr feed whole
  show ?thesis by simp
qed

subsection \<open>C2: the run with threshold 1024 and writes of 500, 600 and 10 bytes\<close>



subsection \<open>C3: a threshold of zero\<close>

text \<open>With \<open>min_frame_size = 0\<close> the test \<^verbatim>\<open>frame_uc >= min_frame_size\<close> holds at every
  write, also at the first one and after an empty one, when nothing is pending: each
  successful write appends a descriptor.\<close>

lemma write_threshold_zero:
  fixes w :: "('n::len, 'c) writer"
  assumes "min_frame_size w = 0" and "nio_archive_write env buf w wd = Some (True, w', wd')"
  shows "\<exists>cm. entries (fl w') = entries (fl w) @
            [\<lparr>compressed_size = cm, uncompressed_size = frame_uc w, checksum = 0\<rparr>]"
  using nio_archive_write_effect [OF assms(2)] assms(1) by simp

text \<open>
  C3, on the code.  Two runs with \<^verbatim>\<open>min_frame_size = 0\<close>.  One write of one byte, then
  close: the seek table has two descriptors, the first of them for an empty frame that the
  first write finalized.  Writes of one, zero and one byte, then close: four descriptors
  for two non-empty writes, two of them empty.  The claim has one descriptor for each
  non-empty write.
\<close>

theorem C3_zero_threshold_runs:
  "session (benv 4 :: (64, byte list) zenv) ''a.zst'' 0 0 [[1]] wd0
     = Some ([[\<lparr>compressed_size = 0, uncompressed_size = 0, checksum = 0\<rparr>]],
             [\<lparr>compressed_size = 0, uncompressed_size = 0, checksum = 0\<rparr>,
              \<lparr>compressed_size = 1, uncompressed_size = 1, checksum = 0\<rparr>])
   \<and> session (benv 4 :: (64, byte list) zenv) ''a.zst'' 0 0 [[1], [], [2]] wd0
     = Some ([[\<lparr>compressed_size = 0, uncompressed_size = 0, checksum = 0\<rparr>],
              [\<lparr>compressed_size = 0, uncompressed_size = 0, checksum = 0\<rparr>,
               \<lparr>compressed_size = 1, uncompressed_size = 1, checksum = 0\<rparr>],
              [\<lparr>compressed_size = 0, uncompressed_size = 0, checksum = 0\<rparr>,
               \<lparr>compressed_size = 1, uncompressed_size = 1, checksum = 0\<rparr>,
               \<lparr>compressed_size = 0, uncompressed_size = 0, checksum = 0\<rparr>]],
             [\<lparr>compressed_size = 0, uncompressed_size = 0, checksum = 0\<rparr>,
              \<lparr>compressed_size = 1, uncompressed_size = 1, checksum = 0\<rparr>,
              \<lparr>compressed_size = 0, uncompressed_size = 0, checksum = 0\<rparr>,
              \<lparr>compressed_size = 1, uncompressed_size = 1, checksum = 0\<rparr>])"
  by (simp add: session_def benv_open benv_write_reached benv_close_pending)

subsection \<open>C8: a write of no bytes\<close>

text \<open>On an empty input the body of the feed loop runs once.\<close>

lemma write_loop_empty:
  assumes "compressStream2 env (cctx w) n [] 0 ZSTD_e_continue = Inr r"
    and "length (cs_out r) \<le> fwrite_count env (clock wd) (length (cs_out r))"
  shows "write_loop env n [] 0 w wd =
           Some (True,
                 w\<lparr>cctx := cs_cctx r, frame_cm := frame_cm w + of_nat (length (cs_out r)),
                   fout := fout w @ cs_out r\<rparr>,
                 wd\<lparr>clock := Suc (clock wd)\<rparr>)"
  using assms
  by (subst write_loop.simps) (simp add: fwrite_def Let_def min_def)

text \<open>
  C8, as amended.  A write of no bytes that returns success leaves \<open>frame_uc\<close> and the
  frame log unchanged when \<open>frame_uc\<close> is below \<open>min_frame_size\<close>; otherwise the pending
  frame is finalized first, which appends one descriptor with the old \<open>frame_uc\<close> as
  \<open>uncompressed_size\<close> and leaves \<open>frame_uc\<close> at zero.  And the write does return
  success when the locking, the threshold check, the allocation of the output buffer, the
  one call of the compressor, the write to the file and the unlocking succeed.
\<close>

theorem C8_empty_write:
  fixes w :: "('n::len, 'c) writer"
  shows "(nio_archive_write env [] w wd = Some (True, w', wd') \<longrightarrow>
            (if min_frame_size w \<le> frame_uc w
             then frame_uc w' = 0
                  \<and> (\<exists>cm. entries (fl w') = entries (fl w) @
                        [\<lparr>compressed_size = cm, uncompressed_size = frame_uc w, checksum = 0\<rparr>])
             else frame_uc w' = frame_uc w \<and> entries (fl w') = entries (fl w)))
       \<and> (\<not> fails env (clock wd) X_mutex_lock
          \<and> write_threshold env (w\<lparr>lock := True\<rparr>) (snd (ext_call env X_mutex_lock wd))
              = Some (True, w1, wd1)
          \<and> \<not> fails env (clock wd1) X_malloc
          \<and> compressStream2 env (cctx w1) (CStreamOutSize env) [] 0 ZSTD_e_continue = Inr r
          \<and> length (cs_out r) \<le> fwrite_count env (Suc (clock wd1)) (length (cs_out r))
          \<and> \<not> fails env (Suc (Suc (clock wd1))) X_mutex_unlock
          \<longrightarrow> (\<exists>v vd. nio_archive_write env [] w wd = Some (True, v, vd)
                       \<and> frame_uc v = frame_uc w1))"
proof (intro conjI impI)
  assume "nio_archive_write env [] w wd = Some (True, w', wd')"
  from nio_archive_write_effect [OF this]
  show "if min_frame_size w \<le> frame_uc w
        then frame_uc w' = 0
             \<and> (\<exists>cm. entries (fl w') = entries (fl w) @
                   [\<lparr>compressed_size = cm, uncompressed_size = frame_uc w, checksum = 0\<rparr>])
        else frame_uc w' = frame_uc w \<and> entries (fl w') = entries (fl w)"
    by (simp split: if_splits)
next
  assume a: "\<not> fails env (clock wd) X_mutex_lock
          \<and> write_threshold env (w\<lparr>lock := True\<rparr>) (snd (ext_call env X_mutex_lock wd))
              = Some (True, w1, wd1)
          \<and> \<not> fails env (clock wd1) X_malloc
          \<and> compressStream2 env (cctx w1) (CStreamOutSize env) [] 0 ZSTD_e_continue = Inr r
          \<and> length (cs_out r) \<le> fwrite_count env (Suc (clock wd1)) (length (cs_out r))
          \<and> \<not> fails env (Suc (Suc (clock wd1))) X_mutex_unlock"
  then have comp: "compressStream2 env (cctx w1) (CStreamOutSize env) [] 0 ZSTD_e_continue = Inr r"
    and wr: "length (cs_out r)
               \<le> fwrite_count env (clock (snd (malloc env R_buf wd1))) (length (cs_out r))"
    by simp_all
  from write_loop_empty [OF comp wr] a
  have feed: "write_feed env [] w1 wd1 =
           Some (True,
                 w1\<lparr>cctx := cs_cctx r, frame_cm := frame_cm w1 + of_nat (length (cs_out r)),
                    fout := fout w1 @ cs_out r\<rparr>,
                 (snd (malloc env R_buf wd1))\<lparr>clock := Suc (Suc (clock wd1))\<rparr>)"
    by (simp add: write_feed_def Let_def split_beta)
  from a feed
  show "\<exists>v vd. nio_archive_write env [] w wd = Some (True, v, vd) \<and> frame_uc v = frame_uc w1"
    by (simp add: nio_archive_write_def Let_def split_beta)
qed

text \<open>
  A run for C8: an empty write on a session that holds three pending bytes, below its
  threshold of 5.  Nothing fails; the counter and the frame log stay as they are.
\<close>

theorem C8_empty_write_witness:
  "nio_archive_write (benv 4 :: (64, byte list) zenv) []
     \<lparr>fout = [], cctx = [1, 2, 3], lock = False, frame_uc = 3, frame_cm = 0,
      min_frame_size = 5, fl = \<lparr>entries = [], seekTablePos = 0\<rparr>\<rparr> wd0
   = Some (True,
       \<lparr>fout = [], cctx = [1, 2, 3], lock = False, frame_uc = 3, frame_cm = 0,
        min_frame_size = 5, fl = \<lparr>entries = [], seekTablePos = 0\<rparr>\<rparr>,
       \<lparr>clock = 4, stderr = [], errbuf = ''caller text'',
        events = [Acquire R_buf, Release R_buf]\<rparr>)
   \<and> \<not> fails (benv 4 :: (64, byte list) zenv) (clock wd0) X_mutex_lock
   \<and> write_threshold (benv 4 :: (64, byte list) zenv)
        (\<lparr>fout = [], cctx = [1, 2, 3], lock = False, frame_uc = 3, frame_cm = 0,
          min_frame_size = 5, fl = \<lparr>entries = [], seekTablePos = 0\<rparr>\<rparr>\<lparr>lock := True\<rparr>)
        (snd (ext_call (benv 4 :: (64, byte list) zenv) X_mutex_lock wd0))
      = Some (True,
          \<lparr>fout = [], cctx = [1, 2, 3], lock = True, frame_uc = 3, frame_cm = 0,
           min_frame_size = 5, fl = \<lparr>entries = [], seekTablePos = 0\<rparr>\<rparr>,
          \<lparr>clock = 1, stderr = [], errbuf = ''caller text'', events = []\<rparr>)
   \<and> \<not> fails (benv 4 :: (64, byte list) zenv) 1 X_malloc
   \<and> compressStream2 (benv 4 :: (64, byte list) zenv) [1, 2, 3] 4 [] 0 ZSTD_e_continue
      = Inr \<lparr>cs_cctx = [1, 2, 3], cs_out = [], cs_in_pos = 0, cs_rem = 0\<rparr>
   \<and> \<not> fails (benv 4 :: (64, byte list) zenv) 3 X_mutex_unlock"
proof -
  let ?w = "\<lparr>fout = [], cctx = [1, 2, 3], lock = False, frame_uc = 3, frame_cm = 0,
      min_frame_size = 5, fl = \<lparr>entries = [], seekTablePos = 0\<rparr>\<rparr> :: (64, byte list) writer"
  let ?w1 = "\<lparr>fout = [], cctx = [1, 2, 3], lock = True, frame_uc = 3, frame_cm = 0,
           min_frame_size = 5, fl = \<lparr>entries = [], seekTablePos = 0\<rparr>\<rparr> :: (64, byte list) writer"
  let ?wd1 = "\<lparr>clock = 1, stderr = [], errbuf = ''caller text'', events = []\<rparr>"
  let ?r = "\<lparr>cs_cctx = [1, 2, 3], cs_out = [], cs_in_pos = 0, cs_rem = 0\<rparr>
            :: (64 word, byte list) cs_result"
  have whole: "nio_archive_write (benv 4) [] ?w wd0
   = Some (True, ?w,
       \<lparr>clock = 4, stderr = [], errbuf = ''caller text'',
        events = [Acquire R_buf, Release R_buf]\<rparr>)"
    by (simp add: benv_write_below wd0_def)
  have thr: "write_threshold (benv 4) (?w\<lparr>lock := True\<rparr>)
        (snd (ext_call (benv 4 :: (64, byte list) zenv) X_mutex_lock wd0)) = Some (True, ?w1, ?wd1)"
    by (simp add: write_threshold_def ext_call_def wd0_def)
  have comp: "compressStream2 (benv 4 :: (64, byte list) zenv) [1, 2, 3] 4 [] 0 ZSTD_e_continue
      = Inr ?r"
    by (simp add: buf_compress_def)
  from C8_empty_write [of "benv 4" ?w wd0 ?w "\<lparr>clock = 4, stderr = [], errbuf = ''caller text'',
        events = [Acquire R_buf, Release R_buf]\<rparr>" ?w1 ?wd1 ?r] whole thr comp
  show ?thesis
    by simp
qed

text \<open>
  C8 as stated fails where the threshold is met.  A session is opened with threshold 5 and
  five bytes are written; the empty write that follows returns success, finalizes the
  pending frame, and leaves \<open>frame_uc\<close> at 0 where it was 5.
\<close>

theorem C8_counterexample:
  "nio_archive_writer_open (benv 8 :: (64, byte list) zenv) ''a.zst'' 0 5 wd0
   = (Some \<lparr>fout = [], cctx = [], lock = False, frame_uc = 0, frame_cm = 0,
            min_frame_size = 5, fl = \<lparr>entries = [], seekTablePos = 0\<rparr>\<rparr>,
      \<lparr>clock = 8, stderr = [], errbuf = ''caller text'',
       events = [Acquire R_writer, Acquire R_cctx, Acquire R_lock, Acquire R_framelog,
                 Acquire R_file]\<rparr>)
   \<and> nio_archive_write (benv 8 :: (64, byte list) zenv) [1, 2, 3, 4, 5]
       \<lparr>fout = [], cctx = [], lock = False, frame_uc = 0, frame_cm = 0,
        min_frame_size = 5, fl = \<lparr>entries = [], seekTablePos = 0\<rparr>\<rparr>
       \<lparr>clock = 8, stderr = [], errbuf = ''caller text'',
        events = [Acquire R_writer, Acquire R_cctx, Acquire R_lock, Acquire R_framelog,
                  Acquire R_file]\<rparr>
   = Some (True,
       \<lparr>fout = [], cctx = [1, 2, 3, 4, 5], lock = False, frame_uc = 5, frame_cm = 0,
        min_frame_size = 5, fl = \<lparr>entries = [], seekTablePos = 0\<rparr>\<rparr>,
       \<lparr>clock = 12, stderr = [], errbuf = ''caller text'',
        events = [Acquire R_writer, Acquire R_cctx, Acquire R_lock, Acquire R_framelog,
                  Acquire R_file, Acquire R_buf, Release R_buf]\<rparr>)
   \<and> nio_archive_write (benv 8 :: (64, byte list) zenv) []
       \<lparr>fout = [], cctx = [1, 2, 3, 4, 5], lock = False, frame_uc = 5, frame_cm = 0,
        min_frame_size = 5, fl = \<lparr>entries = [], seekTablePos = 0\<rparr>\<rparr>
       \<lparr>clock = 12, stderr = [], errbuf = ''caller text'',
        events = [Acquire R_writer, Acquire R_cctx, Acquire R_lock, Acquire R_framelog,
                  Acquire R_file, Acquire R_buf, Release R_buf]\<rparr>
   = Some (True,
       \<lparr>fout = [1, 2, 3, 4, 5], cctx = [], lock = False, frame_uc = 0, frame_cm = 0,
        min_frame_size = 5,
        fl = \<lparr>entries = [\<lparr>compressed_size = 5, uncompressed_size = 5, checksum = 0\<rparr>],
              seekTablePos = 0\<rparr>\<rparr>,
       \<lparr>clock = 19, stderr = [], errbuf = ''caller text'',
        events = [Acquire R_writer, Acquire R_cctx, Acquire R_lock, Acquire R_framelog,
                  Acquire R_file, Acquire R_buf, Release R_buf, Acquire R_buf, Release R_buf,
                  Acquire R_buf, Release R_buf]\<rparr>)
   \<and> (0 :: 64 word) \<noteq> 5"
  by (simp add: benv_open benv_write_below benv_write_reached wd0_def)

subsection \<open>C7: what is drained when a call returns\<close>






subsection \<open>C4: open unwinds what it has acquired\<close>

lemma open_fails_at:
  assumes "k < 8"
    and "\<forall>j<k. \<not> fails env (clock wd + j) (open_steps filename ! j)"
    and "fails env (clock wd + k) (open_steps filename ! k)"
  shows "\<exists>m. nio_archive_writer_open env filename nb_workers mfs wd =
           (None, wd\<lparr>clock := clock wd + k + 1, stderr := stderr wd @ [m],
                     events := events wd @ map Acquire (held_before k)
                                 @ map Release (rev (held_before k))\<rparr>)"
proof -
  from assms(1) consider "k = 0" | "k = 1" | "k = 2" | "k = 3" | "k = 4" | "k = 5" | "k = 6" | "k = 7"
    by linarith
  then show ?thesis
  proof cases
    case 1
    with assms(3) show ?thesis
      by (intro exI) (simp add: nio_archive_writer_open_def open_steps_def held_before_def Let_def
            malloc_def ext_call_def diag_def)
  next
    case 2
    with assms(2,3) show ?thesis
      by (intro exI) (simp add: nio_archive_writer_open_def open_steps_def held_before_def Let_def
            malloc_def ext_call_def diag_def acquire_def release_def fail_w_writer_def)
  next
    case 3
    with assms(2,3) show ?thesis
      by (intro exI) (simp add: nio_archive_writer_open_def open_steps_def held_before_def Let_def
            malloc_def ext_call_def diag_def acquire_def release_def fail_w_writer_def
            fail_w_cctx_def eval_nat_numeral All_less_Suc)
  next
    case 4
    with assms(2,3) show ?thesis
      by (intro exI) (simp add: nio_archive_writer_open_def open_steps_def held_before_def Let_def
            malloc_def ext_call_def diag_def acquire_def release_def fail_w_writer_def
            fail_w_cctx_def eval_nat_numeral All_less_Suc)
  next
    case 5
    with assms(2,3) show ?thesis
      by (intro exI) (simp add: nio_archive_writer_open_def open_steps_def held_before_def Let_def
            malloc_def ext_call_def diag_def acquire_def release_def fail_w_writer_def
            fail_w_cctx_def eval_nat_numeral All_less_Suc)
  next
    case 6
    with assms(2,3) show ?thesis
      by (intro exI) (simp add: nio_archive_writer_open_def open_steps_def held_before_def Let_def
            malloc_def ext_call_def diag_def acquire_def release_def fail_w_writer_def
            fail_w_cctx_def eval_nat_numeral All_less_Suc)
  next
    case 7
    with assms(2,3) show ?thesis
      by (intro exI) (simp add: nio_archive_writer_open_def open_steps_def held_before_def Let_def
            malloc_def ext_call_def diag_def acquire_def release_def fail_w_writer_def
            fail_w_cctx_def fail_w_lock_def eval_nat_numeral All_less_Suc)
  next
    case 8
    with assms(2,3) show ?thesis
      by (intro exI) (simp add: nio_archive_writer_open_def open_steps_def held_before_def Let_def
            malloc_def ext_call_def diag_def acquire_def release_def fail_w_writer_def
            fail_w_cctx_def fail_w_lock_def fail_w_framelog_def eval_nat_numeral All_less_Suc)
  qed
qed

lemma open_succeeds:
  assumes "\<forall>j<8. \<not> fails env (clock wd + j) (open_steps filename ! j)"
  shows "nio_archive_writer_open env filename nb_workers mfs wd =
           (Some \<lparr>fout = [],
                  cctx = setParameter env (setParameter env (setParameter env (createCCtx env)
                           ZSTD_c_compressionLevel COMPRESSION_LEVEL)
                           ZSTD_c_strategy COMPRESSION_STRATEGY) ZSTD_c_nbWorkers nb_workers,
                  lock = False, frame_uc = 0, frame_cm = 0, min_frame_size = mfs,
                  fl = \<lparr>entries = [], seekTablePos = 0\<rparr>\<rparr>,
            wd\<lparr>clock := clock wd + 8,
               events := events wd @ map Acquire [R_writer, R_cctx, R_lock, R_framelog, R_file]\<rparr>)"
  using assms
  by (simp add: nio_archive_writer_open_def open_steps_def Let_def
        malloc_def ext_call_def acquire_def eval_nat_numeral All_less_Suc)


text \<open>
  C4.  The steps of open that can fail are the allocation of the writer, the creation of
  the compression context, the three parameter settings, the initialization of the lock,
  the creation of the frame log and the opening of the file.  If the step number \<open>k\<close> is
  the first to fail, open returns no session, has printed one line, and the events of the
  call are the acquisitions of the resources held before step \<open>k\<close> followed by their
  releases in reverse order.  If open returns a session, then no step failed, the session
  is the fully initialized one, and the five resources are acquired and none released.
\<close>

theorem C4_open_unwinds:
  fixes env :: "('n::len, 'c) zenv"
  shows "(k < 8 \<and> (\<forall>j<k. \<not> fails env (clock wd + j) (open_steps filename ! j))
            \<and> fails env (clock wd + k) (open_steps filename ! k)
          \<longrightarrow> (\<exists>m. nio_archive_writer_open env filename nb_workers mfs wd =
                 (None, wd\<lparr>clock := clock wd + k + 1, stderr := stderr wd @ [m],
                           events := events wd @ map Acquire (held_before k)
                                       @ map Release (rev (held_before k))\<rparr>)))
       \<and> (nio_archive_writer_open env filename nb_workers mfs wd = (Some w, wd')
          \<longrightarrow> (\<forall>j<8. \<not> fails env (clock wd + j) (open_steps filename ! j))
              \<and> w = \<lparr>fout = [],
                      cctx = setParameter env (setParameter env (setParameter env (createCCtx env)
                               ZSTD_c_compressionLevel COMPRESSION_LEVEL)
                               ZSTD_c_strategy COMPRESSION_STRATEGY) ZSTD_c_nbWorkers nb_workers,
                      lock = False, frame_uc = 0, frame_cm = 0, min_frame_size = mfs,
                      fl = \<lparr>entries = [], seekTablePos = 0\<rparr>\<rparr>
              \<and> events wd' = events wd
                    @ map Acquire [R_writer, R_cctx, R_lock, R_framelog, R_file])"
proof (intro conjI impI)
  assume "k < 8 \<and> (\<forall>j<k. \<not> fails env (clock wd + j) (open_steps filename ! j))
            \<and> fails env (clock wd + k) (open_steps filename ! k)"
  then show "\<exists>m. nio_archive_writer_open env filename nb_workers mfs wd =
                 (None, wd\<lparr>clock := clock wd + k + 1, stderr := stderr wd @ [m],
                           events := events wd @ map Acquire (held_before k)
                                       @ map Release (rev (held_before k))\<rparr>)"
    using open_fails_at [of k env wd filename nb_workers mfs] by blast
next
  assume opened: "nio_archive_writer_open env filename nb_workers mfs wd = (Some w, wd')"
  show none: "\<forall>j<8. \<not> fails env (clock wd + j) (open_steps filename ! j)"
  proof (rule ccontr)
    let ?bad = "\<lambda>j. j < 8 \<and> fails env (clock wd + j) (open_steps filename ! j)"
    assume "\<not> (\<forall>j<8. \<not> fails env (clock wd + j) (open_steps filename ! j))"
    then have "\<exists>j. ?bad j" by blast
    then obtain k where k: "?bad k" and least: "\<forall>j<k. \<not> ?bad j"
      using exists_least_iff [of ?bad] by blast
    from k least have "\<forall>j<k. \<not> fails env (clock wd + j) (open_steps filename ! j)"
      by auto
    with k open_fails_at [of k env wd filename nb_workers mfs] opened show False
      by auto
  qed
  from open_succeeds [OF none, of nb_workers mfs] opened
  show "w = \<lparr>fout = [],
             cctx = setParameter env (setParameter env (setParameter env (createCCtx env)
                      ZSTD_c_compressionLevel COMPRESSION_LEVEL)
                      ZSTD_c_strategy COMPRESSION_STRATEGY) ZSTD_c_nbWorkers nb_workers,
             lock = False, frame_uc = 0, frame_cm = 0, min_frame_size = mfs,
             fl = \<lparr>entries = [], seekTablePos = 0\<rparr>\<rparr>"
    and "events wd' = events wd @ map Acquire [R_writer, R_cctx, R_lock, R_framelog, R_file]"
    by auto
qed

text \<open>
  Two runs for C4.  In the first the opening of the file fails, the last of the eight
  steps: four resources were acquired and are released in reverse order.  In the second no
  step fails.
\<close>

theorem C4_open_unwinds_witness:
  "fails (failing (X_fopen ''a.zst'') :: (64, byte list) zenv) 7 (X_fopen ''a.zst'')
   \<and> nio_archive_writer_open (failing (X_fopen ''a.zst'') :: (64, byte list) zenv)
        ''a.zst'' 0 1024 wd0
     = (None,
        \<lparr>clock = 8, stderr = [''nio_archive_writer_open: open file''], errbuf = ''caller text'',
         events = [Acquire R_writer, Acquire R_cctx, Acquire R_lock, Acquire R_framelog,
                   Release R_framelog, Release R_lock, Release R_cctx, Release R_writer]\<rparr>)
   \<and> nio_archive_writer_open (benv 4 :: (64, byte list) zenv) ''a.zst'' 0 1024 wd0
     = (Some \<lparr>fout = [], cctx = [], lock = False, frame_uc = 0, frame_cm = 0,
              min_frame_size = 1024, fl = \<lparr>entries = [], seekTablePos = 0\<rparr>\<rparr>,
        \<lparr>clock = 8, stderr = [], errbuf = ''caller text'',
         events = [Acquire R_writer, Acquire R_cctx, Acquire R_lock, Acquire R_framelog,
                   Acquire R_file]\<rparr>)"
proof -
  let ?env = "failing (X_fopen ''a.zst'') :: (64, byte list) zenv"
  have before: "\<forall>j<7. \<not> fails ?env (clock wd0 + j) (open_steps ''a.zst'' ! j)"
    by (simp add: open_steps_def eval_nat_numeral All_less_Suc)
  have at: "fails ?env (clock wd0 + 7) (open_steps ''a.zst'' ! 7)"
    by (simp add: open_steps_def)
  have good: "nio_archive_writer_open (benv 4 :: (64, byte list) zenv) ''a.zst'' 0 1024 wd0
     = (Some \<lparr>fout = [], cctx = [], lock = False, frame_uc = 0, frame_cm = 0,
              min_frame_size = 1024, fl = \<lparr>entries = [], seekTablePos = 0\<rparr>\<rparr>,
        \<lparr>clock = 8, stderr = [], errbuf = ''caller text'',
         events = [Acquire R_writer, Acquire R_cctx, Acquire R_lock, Acquire R_framelog,
                   Acquire R_file]\<rparr>)"
    by (simp add: benv_open wd0_def)
  have bad: "nio_archive_writer_open ?env ''a.zst'' 0 1024 wd0
     = (None,
        \<lparr>clock = 8, stderr = [''nio_archive_writer_open: open file''], errbuf = ''caller text'',
         events = [Acquire R_writer, Acquire R_cctx, Acquire R_lock, Acquire R_framelog,
                   Release R_framelog, Release R_lock, Release R_cctx, Release R_writer]\<rparr>)"
    by (simp add: nio_archive_writer_open_def Let_def malloc_def ext_call_def diag_def
          acquire_def release_def fail_w_writer_def fail_w_cctx_def fail_w_lock_def
          fail_w_framelog_def wd0_def)
  from C4_open_unwinds [where k = 7 and env = ?env and wd = wd0 and filename = "''a.zst''"]
       C4_open_unwinds [where env = "benv 4 :: (64, byte list) zenv" and wd = wd0
                          and filename = "''a.zst''" and nb_workers = 0 and mfs = 1024]
       before at good bad
  show ?thesis
    by simp
qed

subsection \<open>C10: the error buffer of the caller\<close>

lemma open_world:
  "errbuf (snd (nio_archive_writer_open env filename nb_workers mfs wd)) = errbuf wd
   \<and> (if fst (nio_archive_writer_open env filename nb_workers mfs wd) = None
       then \<exists>m. stderr (snd (nio_archive_writer_open env filename nb_workers mfs wd))
                  = stderr wd @ [m]
       else stderr (snd (nio_archive_writer_open env filename nb_workers mfs wd)) = stderr wd)"
  by (simp add: nio_archive_writer_open_def Let_def split_beta fail_w_writer_def
        fail_w_cctx_def fail_w_lock_def fail_w_framelog_def)

lemma end_frame_world:
  assumes "end_frame env w wd = Some (ok, w', wd')"
  shows "errbuf wd' = errbuf wd
       \<and> (if ok then stderr wd' = stderr wd else (\<exists>m. stderr wd' = stderr wd @ [m]))"
proof (cases ok)
  case True
  with assms end_frame_True [of env w wd w' wd'] show ?thesis by auto
next
  case False
  with assms end_frame_False [of env w wd w' wd'] show ?thesis by auto
qed

lemma write_threshold_world:
  assumes "write_threshold env w wd = Some (ok, w', wd')"
  shows "errbuf wd' = errbuf wd
       \<and> (if ok then stderr wd' = stderr wd
          else (\<exists>ms. ms \<noteq> [] \<and> stderr wd' = stderr wd @ ms))"
proof (cases ok)
  case True
  with assms have thr: "write_threshold env w wd = Some (True, w', wd')" by simp
  show ?thesis
  proof (cases "min_frame_size w \<le> frame_uc w")
    case reached: True
    with write_threshold_True [OF thr] have "end_frame env w wd = Some (True, w', wd')"
      by simp
    from end_frame_world [OF this] True show ?thesis by simp
  next
    case False
    with write_threshold_True [OF thr] True show ?thesis by simp
  qed
next
  case False
  with assms have "write_threshold env w wd = Some (False, w', wd')" by simp
  from write_threshold_False [OF this] obtain wd1 where
      fin: "end_frame env w wd = Some (False, w', wd1)"
      and wd': "wd' = diag ''nio_archive_write: end frame failed'' wd1"
    by blast
  from end_frame_world [OF fin] obtain m where "errbuf wd1 = errbuf wd" "stderr wd1 = stderr wd @ [m]"
    by auto
  with wd' False show ?thesis by simp
qed

lemma nio_archive_write_world:
  assumes "nio_archive_write env buf w wd = Some (ok, w', wd')"
  shows "errbuf wd' = errbuf wd
       \<and> (if ok then stderr wd' = stderr wd
          else (\<exists>ms. ms \<noteq> [] \<and> stderr wd' = stderr wd @ ms))"
proof (cases "fails env (clock wd) X_mutex_lock")
  case True
  with assms have "\<not> ok" "wd' = diag ''nio_archive_write: lock mutex'' (snd (ext_call env X_mutex_lock wd))"
    by (simp_all add: nio_archive_write_def Let_def split_beta)
  then show ?thesis by (auto split: if_splits)
next
  case locked: False
  let ?wd1 = "snd (ext_call env X_mutex_lock wd)"
  from assms locked obtain ok1 w1 wd1 where
      thr: "write_threshold env (w\<lparr>lock := True\<rparr>) ?wd1 = Some (ok1, w1, wd1)"
    by (cases "write_threshold env (w\<lparr>lock := True\<rparr>) ?wd1")
       (auto simp: nio_archive_write_def Let_def split_beta)
  from write_threshold_world [OF thr]
  have tw: "errbuf wd1 = errbuf wd"
    "if ok1 then stderr wd1 = stderr wd else (\<exists>ms. ms \<noteq> [] \<and> stderr wd1 = stderr wd @ ms)"
    by (auto split: if_splits)
  show ?thesis
  proof (cases ok1)
    case False
    with assms locked thr
    have "\<not> ok" "wd' = snd (write_fail_w_lock env w1 wd1)"
      by (simp_all add: nio_archive_write_def Let_def split_beta)
    with tw False show ?thesis by (auto split: if_splits)
  next
    case True
    with assms locked thr obtain ok2 w2 wd2 where
        feed: "write_feed env buf w1 wd1 = Some (ok2, w2, wd2)"
      by (cases "write_feed env buf w1 wd1")
         (auto simp: nio_archive_write_def Let_def split_beta)
    from write_feed_keeps [OF feed]
    have fk: "errbuf wd2 = errbuf wd1"
      "if ok2 then stderr wd2 = stderr wd1 else (\<exists>m. stderr wd2 = stderr wd1 @ [m])"
      by (auto split: if_splits)
    show ?thesis
    proof (cases ok2)
      case False
      with assms locked thr True feed
      have "\<not> ok" "wd' = snd (write_fail_w_lock env w2 wd2)"
        by (simp_all add: nio_archive_write_def Let_def split_beta)
      with tw fk True False show ?thesis by (auto split: if_splits)
    next
      case fed: True
      let ?wd3 = "snd (ext_call env X_mutex_unlock (release R_buf wd2))"
      show ?thesis
      proof (cases "fails env (clock wd2) X_mutex_unlock")
        case True
        with assms locked thr \<open>ok1\<close> feed fed
        have "\<not> ok" "wd' = diag ''nio_archive_write: unlock mutex'' ?wd3"
          by (simp_all add: nio_archive_write_def Let_def split_beta)
        with tw fk \<open>ok1\<close> fed show ?thesis by (auto split: if_splits)
      next
        case False
        with assms locked thr \<open>ok1\<close> feed fed
        have "ok" "wd' = ?wd3"
          by (simp_all add: nio_archive_write_def Let_def split_beta)
        with tw fk \<open>ok1\<close> fed show ?thesis by (auto split: if_splits)
      qed
    qed
  qed
qed

lemma close_cleanup_world:
  "errbuf (snd (close_cleanup env wd)) = errbuf wd
   \<and> (if fst (close_cleanup env wd) then stderr (snd (close_cleanup env wd)) = stderr wd
       else (\<exists>m. stderr (snd (close_cleanup env wd)) = stderr wd @ [m]))"
  by (simp add: close_cleanup_def Let_def split_beta)

lemma nio_archive_writer_close_world:
  assumes "nio_archive_writer_close env w wd = Some (ok, w', wd')"
  shows "errbuf wd' = errbuf wd
       \<and> (if ok then stderr wd' = stderr wd
          else (\<exists>ms. ms \<noteq> [] \<and> stderr wd' = stderr wd @ ms))"
proof -
  let ?fin = "if 0 < frame_uc w then end_frame env w wd else Some (True, w, wd)"
  from assms obtain ok1 w1 wd1 where fin: "?fin = Some (ok1, w1, wd1)"
    by (cases ?fin) (auto simp: nio_archive_writer_close_def)
  have fw: "errbuf wd1 = errbuf wd"
    "if ok1 then stderr wd1 = stderr wd else (\<exists>m. stderr wd1 = stderr wd @ [m])"
  proof -
    have "errbuf wd1 = errbuf wd
       \<and> (if ok1 then stderr wd1 = stderr wd else (\<exists>m. stderr wd1 = stderr wd @ [m]))"
    proof (cases "0 < frame_uc w")
      case True
      with fin have "end_frame env w wd = Some (ok1, w1, wd1)" by simp
      from end_frame_world [OF this] show ?thesis .
    next
      case False
      with fin show ?thesis by (auto split: if_splits)
    qed
    then show "errbuf wd1 = errbuf wd"
      "if ok1 then stderr wd1 = stderr wd else (\<exists>m. stderr wd1 = stderr wd @ [m])"
      by (auto split: if_splits)
  qed
  show ?thesis
  proof (cases ok1)
    case False
    with assms fin
    have "\<not> ok" "wd' = diag ''nio_archive_writer_close: end frame failed'' wd1"
      by (simp_all add: nio_archive_writer_close_def)
    with fw False show ?thesis by (auto split: if_splits)
  next
    case finished: True
    let ?wd2 = "snd (malloc env R_buf wd1)"
    show ?thesis
    proof (cases "fails env (clock wd1) X_malloc")
      case True
      with assms fin finished
      have "\<not> ok" "wd' = diag ''nio_archive_writer_close: allocate output buffer'' ?wd2"
        by (simp_all add: nio_archive_writer_close_def Let_def split_beta)
      with fw finished show ?thesis by (auto split: if_splits)
    next
      case allocated: False
      with assms fin finished obtain ok2 w2 wd3 where
          tbl: "seek_table_loop env 4096 w1 ?wd2 = Some (ok2, w2, wd3)"
        by (cases "seek_table_loop env 4096 w1 ?wd2")
           (auto simp: nio_archive_writer_close_def Let_def split_beta)
      from seek_table_loop_keeps [OF tbl] have tk: "errbuf wd3 = errbuf wd1"
        by simp
      note ts = seek_table_loop_stderr [OF tbl]
      show ?thesis
      proof (cases ok2)
        case False
        with assms fin finished allocated tbl
        have "\<not> ok" "wd' = wd3"
          by (simp_all add: nio_archive_writer_close_def Let_def split_beta)
        with fw finished tk ts False show ?thesis by (auto split: if_splits)
      next
        case True
        let ?c = "close_cleanup env (release R_buf wd3)"
        from assms fin finished allocated tbl True
        have "ok = fst ?c" "wd' = snd ?c"
          by (simp_all add: nio_archive_writer_close_def Let_def split_beta)
        with fw finished tk ts True close_cleanup_world [of env "release R_buf wd3"]
        show ?thesis by (cases "fst ?c") (auto split: if_splits)
      qed
    qed
  qed
qed


text \<open>
  C10.  None of open, write and close changes the error buffer of the caller, whatever the
  outcome of the call: the buffer after the call is the buffer before it.  Each call that
  reports failure has printed at least one line on the standard error stream.
\<close>

theorem C10_errbuf_untouched:
  fixes env :: "('n::len, 'c) zenv"
  shows "errbuf (snd (nio_archive_writer_open env filename nb_workers mfs wd)) = errbuf wd
       \<and> (fst (nio_archive_writer_open env filename nb_workers mfs wd) = None
            \<longrightarrow> (\<exists>m. stderr (snd (nio_archive_writer_open env filename nb_workers mfs wd))
                       = stderr wd @ [m]))
       \<and> (nio_archive_write env buf w wd = Some (ok, w', wd')
            \<longrightarrow> errbuf wd' = errbuf wd
                \<and> (\<not> ok \<longrightarrow> (\<exists>ms. ms \<noteq> [] \<and> stderr wd' = stderr wd @ ms)))
       \<and> (nio_archive_writer_close env w wd = Some (ok, w', wd')
            \<longrightarrow> errbuf wd' = errbuf wd
                \<and> (\<not> ok \<longrightarrow> (\<exists>ms. ms \<noteq> [] \<and> stderr wd' = stderr wd @ ms)))"
proof (intro conjI impI)
  show "errbuf (snd (nio_archive_writer_open env filename nb_workers mfs wd)) = errbuf wd"
    using open_world [of env filename nb_workers mfs wd] by simp
next
  assume "fst (nio_archive_writer_open env filename nb_workers mfs wd) = None"
  with open_world [of env filename nb_workers mfs wd]
  show "\<exists>m. stderr (snd (nio_archive_writer_open env filename nb_workers mfs wd)) = stderr wd @ [m]"
    by (simp split: if_splits)
next
  assume "nio_archive_write env buf w wd = Some (ok, w', wd')"
  from nio_archive_write_world [OF this] show "errbuf wd' = errbuf wd"
    by simp
next
  assume "nio_archive_write env buf w wd = Some (ok, w', wd')" and "\<not> ok"
  with nio_archive_write_world [of env buf w wd ok w' wd']
  show "\<exists>ms. ms \<noteq> [] \<and> stderr wd' = stderr wd @ ms"
    by (simp split: if_splits)
next
  assume "nio_archive_writer_close env w wd = Some (ok, w', wd')"
  from nio_archive_writer_close_world [OF this] show "errbuf wd' = errbuf wd"
    by simp
next
  assume "nio_archive_writer_close env w wd = Some (ok, w', wd')" and "\<not> ok"
  with nio_archive_writer_close_world [of env w wd ok w' wd']
  show "\<exists>ms. ms \<noteq> [] \<and> stderr wd' = stderr wd @ ms"
    by (simp split: if_splits)
qed

text \<open>
  Three calls for C10, each with the text \<open>''caller text''\<close> in the error buffer: an open
  whose first allocation fails, a write that cannot lock the mutex, and a close in which
  nothing fails.
\<close>

theorem C10_errbuf_untouched_witness:
  "nio_archive_writer_open (failing X_malloc :: (64, byte list) zenv) ''a.zst'' 0 1024 wd0
     = (None, \<lparr>clock = 1, stderr = [''nio_archive_writer_open: allocate writer''],
               errbuf = ''caller text'', events = []\<rparr>)
   \<and> nio_archive_write (failing X_mutex_lock :: (64, byte list) zenv) [1]
       \<lparr>fout = [], cctx = [], lock = False, frame_uc = 0, frame_cm = 0, min_frame_size = 1024,
        fl = \<lparr>entries = [], seekTablePos = 0\<rparr>\<rparr> wd0
     = Some (False,
         \<lparr>fout = [], cctx = [], lock = False, frame_uc = 0, frame_cm = 0, min_frame_size = 1024,
          fl = \<lparr>entries = [], seekTablePos = 0\<rparr>\<rparr>,
         \<lparr>clock = 1, stderr = [''nio_archive_write: lock mutex''],
          errbuf = ''caller text'', events = []\<rparr>)
   \<and> nio_archive_writer_close (benv 4 :: (64, byte list) zenv)
       \<lparr>fout = [], cctx = [], lock = False, frame_uc = 0, frame_cm = 0, min_frame_size = 1024,
        fl = \<lparr>entries = [], seekTablePos = 0\<rparr>\<rparr> wd0
     = Some (True,
         \<lparr>fout = [], cctx = [], lock = False, frame_uc = 0, frame_cm = 0, min_frame_size = 1024,
          fl = \<lparr>entries = [], seekTablePos = 0\<rparr>\<rparr>,
         \<lparr>clock = 6, stderr = [], errbuf = ''caller text'',
          events = [Acquire R_buf, Release R_buf, Release R_file, Release R_framelog,
                    Release R_lock, Release R_cctx, Release R_writer]\<rparr>)
   \<and> errbuf wd0 = ''caller text''"
proof -
  let ?w = "\<lparr>fout = [], cctx = [], lock = False, frame_uc = 0, frame_cm = 0,
             min_frame_size = 1024, fl = \<lparr>entries = [], seekTablePos = 0\<rparr>\<rparr>
            :: (64, byte list) writer"
  have op: "nio_archive_writer_open (failing X_malloc :: (64, byte list) zenv) ''a.zst'' 0 1024 wd0
     = (None, \<lparr>clock = 1, stderr = [''nio_archive_writer_open: allocate writer''],
               errbuf = ''caller text'', events = []\<rparr>)"
    by (simp add: nio_archive_writer_open_def Let_def malloc_def ext_call_def diag_def wd0_def)
  have wr: "nio_archive_write (failing X_mutex_lock) [1] ?w wd0
     = Some (False, ?w,
         \<lparr>clock = 1, stderr = [''nio_archive_write: lock mutex''],
          errbuf = ''caller text'', events = []\<rparr>)"
    by (simp add: nio_archive_write_def Let_def ext_call_def diag_def wd0_def)
  have cl: "nio_archive_writer_close (benv 4) ?w wd0
     = Some (True, ?w,
         \<lparr>clock = 6, stderr = [], errbuf = ''caller text'',
          events = [Acquire R_buf, Release R_buf, Release R_file, Release R_framelog,
                    Release R_lock, Release R_cctx, Release R_writer]\<rparr>)"
    by (simp add: benv_close_empty wd0_def)
  have eb: "errbuf wd0 = ''caller text''"
    by (simp add: wd0_def)
  from C10_errbuf_untouched [where env = "failing X_mutex_lock :: (64, byte list) zenv"
         and buf = "[1]" and w = ?w and wd = wd0 and ok = False and w' = ?w
         and wd' = "\<lparr>clock = 1, stderr = [''nio_archive_write: lock mutex''],
                      errbuf = ''caller text'', events = []\<rparr>"]
       op wr cl eb
  show ?thesis by simp
qed

subsection \<open>The turns of the drain loop\<close>

text \<open>A turn that goes on hands the loop over to the next state; the loop from the first
  state is the loop from any state that such turns reach.\<close>

lemma drain_turn_loop:
  assumes "drain_turn env n w wd = Some (w1, wd1)"
  shows "end_frame_loop env n w wd = end_frame_loop env n w1 wd1"
  using assms
  by (subst end_frame_loop.simps)
     (auto simp: drain_turn_def Let_def split_beta split: sum.splits if_splits)

lemma drain_turns_loop:
  assumes "drain_turns env n k w wd = Some (v, vd)"
  shows "end_frame_loop env n w wd = end_frame_loop env n v vd"
  using assms
proof (induction k arbitrary: w wd)
  case 0
  then show ?case by simp
next
  case (Suc k)
  from Suc.prems obtain w1 wd1 where
      turn: "drain_turn env n w wd = Some (w1, wd1)"
      and rest: "drain_turns env n k w1 wd1 = Some (v, vd)"
    by (auto split: option.splits)
  from drain_turn_loop [OF turn] Suc.IH [OF rest] show ?case by simp
qed

lemma drain_turn_keeps:
  assumes "drain_turn env n w wd = Some (w1, wd1)"
  shows "fl w1 = fl w \<and> frame_uc w1 = frame_uc w \<and> min_frame_size w1 = min_frame_size w
       \<and> lock w1 = lock w \<and> clock wd1 = Suc (clock wd) \<and> stderr wd1 = stderr wd
       \<and> errbuf wd1 = errbuf wd \<and> events wd1 = events wd
       \<and> (\<exists>bs. fout w1 = fout w @ bs \<and> frame_cm w1 = frame_cm w + of_nat (length bs))"
  using assms
  by (auto simp: drain_turn_def fwrite_def Let_def split_beta min_def
           split: sum.splits if_splits)

lemma drain_turns_keeps:
  assumes "drain_turns env n k w wd = Some (v, vd)"
  shows "fl v = fl w \<and> frame_uc v = frame_uc w \<and> min_frame_size v = min_frame_size w
       \<and> lock v = lock w \<and> clock vd = clock wd + k \<and> stderr vd = stderr wd
       \<and> errbuf vd = errbuf wd \<and> events vd = events wd
       \<and> (\<exists>bs. fout v = fout w @ bs \<and> frame_cm v = frame_cm w + of_nat (length bs))"
  using assms
proof (induction k arbitrary: w wd)
  case 0
  then show ?case by simp
next
  case (Suc k)
  from Suc.prems obtain w1 wd1 where
      turn: "drain_turn env n w wd = Some (w1, wd1)"
      and rest: "drain_turns env n k w1 wd1 = Some (v, vd)"
    by (auto split: option.splits)
  from drain_turn_keeps [OF turn] obtain bs1 where
      k1: "fl w1 = fl w" "frame_uc w1 = frame_uc w" "min_frame_size w1 = min_frame_size w"
        "lock w1 = lock w" "clock wd1 = Suc (clock wd)" "stderr wd1 = stderr wd"
        "errbuf wd1 = errbuf wd" "events wd1 = events wd"
      and b1: "fout w1 = fout w @ bs1" "frame_cm w1 = frame_cm w + of_nat (length bs1)"
    by blast
  from Suc.IH [OF rest] obtain bs2 where
      k2: "fl v = fl w1" "frame_uc v = frame_uc w1" "min_frame_size v = min_frame_size w1"
        "lock v = lock w1" "clock vd = clock wd1 + k" "stderr vd = stderr wd1"
        "errbuf vd = errbuf wd1" "events vd = events wd1"
      and b2: "fout v = fout w1 @ bs2" "frame_cm v = frame_cm w1 + of_nat (length bs2)"
    by blast
  from b1 b2 have "fout v = fout w @ (bs1 @ bs2)"
    "frame_cm v = frame_cm w + of_nat (length (bs1 @ bs2))"
    by simp_all
  with k1 k2 show ?case
    by (intro conjI exI [of _ "bs1 @ bs2"]) simp_all
qed

text \<open>How the loop ends at a state, by what the compressor and the file do there.\<close>

lemma end_frame_loop_error:
  assumes "compressStream2 env (cctx v) n [] 0 ZSTD_e_end = Inl e"
  shows "end_frame_loop env n v vd = Some (False, v, diag (''end_frame: compress: '' @ e) vd)"
  using assms by (subst end_frame_loop.simps) simp

lemma end_frame_loop_short:
  assumes "compressStream2 env (cctx v) n [] 0 ZSTD_e_end = Inr r"
    and "fwrite_count env (clock vd) (length (cs_out r)) < length (cs_out r)"
  shows "end_frame_loop env n v vd =
           Some (False,
                 v\<lparr>cctx := cs_cctx r, frame_cm := frame_cm v + of_nat (length (cs_out r)),
                   fout := fout v @ take (fwrite_count env (clock vd) (length (cs_out r))) (cs_out r)\<rparr>,
                 diag ''end_frame: write to file'' (vd\<lparr>clock := Suc (clock vd)\<rparr>))"
  using assms
  by (subst end_frame_loop.simps) (simp add: fwrite_def Let_def min_def)

lemma end_frame_loop_done:
  assumes "compressStream2 env (cctx v) n [] 0 ZSTD_e_end = Inr r"
    and "length (cs_out r) \<le> fwrite_count env (clock vd) (length (cs_out r))"
    and "cs_rem r = 0"
  shows "end_frame_loop env n v vd =
           Some (True,
                 v\<lparr>cctx := cs_cctx r, frame_cm := frame_cm v + of_nat (length (cs_out r)),
                   fout := fout v @ cs_out r\<rparr>,
                 vd\<lparr>clock := Suc (clock vd)\<rparr>)"
  using assms
  by (subst end_frame_loop.simps) (simp add: fwrite_def Let_def min_def)

text \<open>Every drain that returns has made some number of turns and ended at the state they
  reach.\<close>

lemma end_frame_loop_turns:
  assumes "end_frame_loop env n w wd = Some y"
  shows "\<exists>k v vd. drain_turns env n k w wd = Some (v, vd) \<and> drain_turn env n v vd = None"
  using assms
proof (induction env n w wd y rule: end_frame_loop_induct)
  case (step lp env n w wd y)
  show ?case
  proof (cases "drain_turn env n w wd")
    case None
    then have "drain_turns env n 0 w wd = Some (w, wd) \<and> drain_turn env n w wd = None"
      by simp
    then show ?thesis by blast
  next
    case (Some s)
    obtain w1 wd1 where s: "s = (w1, wd1)" by (cases s)
    with Some step.hyps have "lp env n w1 wd1 = Some y"
      by (auto simp: drain_turn_def Let_def split_beta split: sum.splits if_splits)
    from step.IH [OF this] obtain k v vd where
        "drain_turns env n k w1 wd1 = Some (v, vd)" "drain_turn env n v vd = None"
      by blast
    with Some s have "drain_turns env n (Suc k) w wd = Some (v, vd) \<and> drain_turn env n v vd = None"
      by simp
    then show ?thesis by blast
  qed
qed

subsection \<open>How \<^verbatim>\<open>end_frame\<close> returns\<close>

lemma end_frame_alloc_fails:
  assumes "fails env (clock wd) X_malloc"
  shows "end_frame env w wd =
           Some (False, w, wd\<lparr>clock := Suc (clock wd),
                               stderr := stderr wd @ [''end_frame: allocate output buffer'']\<rparr>)"
  using assms
  by (simp add: end_frame_def Let_def malloc_def ext_call_def diag_def)

lemma end_frame_compress_fails:
  assumes "\<not> fails env (clock wd) X_malloc"
    and "drain_turns env (CStreamOutSize env) k w (snd (malloc env R_buf wd)) = Some (v, vd)"
    and "compressStream2 env (cctx v) (CStreamOutSize env) [] 0 ZSTD_e_end = Inl e"
  shows "end_frame env w wd =
           Some (False, v, release R_buf (diag (''end_frame: compress: '' @ e) vd))"
proof -
  from drain_turns_loop [OF assms(2)] end_frame_loop_error [OF assms(3)]
  have "end_frame_loop env (CStreamOutSize env) w (snd (malloc env R_buf wd))
          = Some (False, v, diag (''end_frame: compress: '' @ e) vd)"
    by simp
  with assms(1) show ?thesis
    by (simp add: end_frame_def Let_def split_beta)
qed

lemma end_frame_write_fails:
  assumes "\<not> fails env (clock wd) X_malloc"
    and "drain_turns env (CStreamOutSize env) k w (snd (malloc env R_buf wd)) = Some (v, vd)"
    and "compressStream2 env (cctx v) (CStreamOutSize env) [] 0 ZSTD_e_end = Inr r"
    and "fwrite_count env (clock vd) (length (cs_out r)) < length (cs_out r)"
  shows "end_frame env w wd =
           Some (False,
                 v\<lparr>cctx := cs_cctx r, frame_cm := frame_cm v + of_nat (length (cs_out r)),
                   fout := fout v @ take (fwrite_count env (clock vd) (length (cs_out r))) (cs_out r)\<rparr>,
                 release R_buf (diag ''end_frame: write to file'' (vd\<lparr>clock := Suc (clock vd)\<rparr>)))"
proof -
  from drain_turns_loop [OF assms(2)] end_frame_loop_short [OF assms(3,4)]
  have "end_frame_loop env (CStreamOutSize env) w (snd (malloc env R_buf wd))
          = Some (False,
                 v\<lparr>cctx := cs_cctx r, frame_cm := frame_cm v + of_nat (length (cs_out r)),
                   fout := fout v @ take (fwrite_count env (clock vd) (length (cs_out r))) (cs_out r)\<rparr>,
                 diag ''end_frame: write to file'' (vd\<lparr>clock := Suc (clock vd)\<rparr>))"
    by simp
  with assms(1) show ?thesis
    by (simp add: end_frame_def Let_def split_beta)
qed

lemma end_frame_drained:
  assumes "\<not> fails env (clock wd) X_malloc"
    and "drain_turns env (CStreamOutSize env) k w (snd (malloc env R_buf wd)) = Some (v, vd)"
    and "compressStream2 env (cctx v) (CStreamOutSize env) [] 0 ZSTD_e_end = Inr r"
    and "length (cs_out r) \<le> fwrite_count env (clock vd) (length (cs_out r))"
    and "cs_rem r = 0"
  shows "end_frame env w wd =
           (if fails env (Suc (clock vd)) X_logFrame
            then Some (False,
                   v\<lparr>cctx := cs_cctx r, frame_cm := frame_cm v + of_nat (length (cs_out r)),
                     fout := fout v @ cs_out r\<rparr>,
                   release R_buf (diag ''end_frame: log frame''
                     (vd\<lparr>clock := Suc (Suc (clock vd))\<rparr>)))
            else Some (True,
                   v\<lparr>cctx := cs_cctx r, fout := fout v @ cs_out r,
                     fl := (fl v)\<lparr>entries := entries (fl v) @
                             [\<lparr>compressed_size = frame_cm v + of_nat (length (cs_out r)),
                               uncompressed_size = frame_uc v, checksum = 0\<rparr>]\<rparr>,
                     frame_uc := 0, frame_cm := 0\<rparr>,
                   release R_buf (vd\<lparr>clock := Suc (Suc (clock vd))\<rparr>)))"
proof -
  from drain_turns_loop [OF assms(2)] end_frame_loop_done [OF assms(3,4,5)]
  have "end_frame_loop env (CStreamOutSize env) w (snd (malloc env R_buf wd))
          = Some (True,
                 v\<lparr>cctx := cs_cctx r, frame_cm := frame_cm v + of_nat (length (cs_out r)),
                   fout := fout v @ cs_out r\<rparr>,
                 vd\<lparr>clock := Suc (clock vd)\<rparr>)"
    by simp
  with assms(1) show ?thesis
    by (simp add: end_frame_def Let_def split_beta ext_call_def)
qed

subsection \<open>C5: frame finalization is all or nothing\<close>

lemma poisoned_fields [simp]:
  "fails poisoned t x = False"
  "fwrite_count poisoned t n = n"
  "CStreamOutSize poisoned = 4"
  "compressStream2 poisoned = poison_compress"
  by (simp_all add: poisoned_def benv_def)

lemma short_write_fields [simp]:
  "fails (short_write t0) t x = False"
  "fwrite_count (short_write t0) t n = (if t = t0 then 1 else n)"
  "CStreamOutSize (short_write t0) = 4"
  "compressStream2 (short_write t0) = buf_compress"
  by (simp_all add: short_write_def benv_def)

text \<open>
  C5.  Frame finalization either appends one descriptor and resets both counters, or
  fails and does neither.

  \<^item> Whenever \<^verbatim>\<open>end_frame\<close> returns success, the frame log has exactly one more
    descriptor, with \<open>frame_cm\<close> as it stood after the drain (the old value plus the
    bytes the drain put into the file) and \<open>frame_uc\<close>, and both counters are zero;
    whenever it returns failure, the frame log and \<open>frame_uc\<close> are as before.
  \<^item> If the allocation of the output buffer fails, it returns failure and the writer is
    untouched.
  \<^item> Let the drain have made \<open>k\<close> turns and reached the writer \<open>v\<close>: then \<open>v\<close> has
    the frame log and \<open>frame_uc\<close> of the start, and \<open>frame_cm\<close> has grown by the bytes
    written so far.  If the compressor now reports an error, \<^verbatim>\<open>end_frame\<close> returns
    failure with the writer \<open>v\<close>.  If the write to the file is short, it returns failure
    with \<open>frame_cm\<close> grown by the whole output of this turn.  If the turn is the last
    one (whole output written, nothing left), then it returns failure when the logging
    fails, with no descriptor and the counters as they are, and success otherwise, with
    the descriptor appended and the counters reset.
  \<^item> Every call that returns after a successful allocation is one of these cases.
\<close>

theorem C5_end_frame_atomic:
  fixes w :: "('n::len, 'c) writer"
  shows "(end_frame env w wd = Some (ok, w', wd') \<longrightarrow>
            (if ok
             then (\<exists>bs. fout w' = fout w @ bs
                     \<and> entries (fl w') = entries (fl w) @
                         [\<lparr>compressed_size = frame_cm w + of_nat (length bs),
                           uncompressed_size = frame_uc w, checksum = 0\<rparr>])
                  \<and> frame_uc w' = 0 \<and> frame_cm w' = 0
             else fl w' = fl w \<and> frame_uc w' = frame_uc w))
       \<and> (fails env (clock wd) X_malloc \<longrightarrow>
            end_frame env w wd =
              Some (False, w, wd\<lparr>clock := Suc (clock wd),
                                  stderr := stderr wd @ [''end_frame: allocate output buffer'']\<rparr>))
       \<and> (\<not> fails env (clock wd) X_malloc
            \<and> drain_turns env (CStreamOutSize env) k w (snd (malloc env R_buf wd)) = Some (v, vd)
          \<longrightarrow>
            fl v = fl w \<and> frame_uc v = frame_uc w
          \<and> (\<exists>bs. fout v = fout w @ bs \<and> frame_cm v = frame_cm w + of_nat (length bs))
          \<and> (compressStream2 env (cctx v) (CStreamOutSize env) [] 0 ZSTD_e_end = Inl e \<longrightarrow>
                end_frame env w wd =
                  Some (False, v, release R_buf (diag (''end_frame: compress: '' @ e) vd)))
          \<and> (compressStream2 env (cctx v) (CStreamOutSize env) [] 0 ZSTD_e_end = Inr r
                \<and> fwrite_count env (clock vd) (length (cs_out r)) < length (cs_out r) \<longrightarrow>
                end_frame env w wd =
                  Some (False,
                    v\<lparr>cctx := cs_cctx r, frame_cm := frame_cm v + of_nat (length (cs_out r)),
                      fout := fout v
                        @ take (fwrite_count env (clock vd) (length (cs_out r))) (cs_out r)\<rparr>,
                    release R_buf (diag ''end_frame: write to file''
                      (vd\<lparr>clock := Suc (clock vd)\<rparr>))))
          \<and> (compressStream2 env (cctx v) (CStreamOutSize env) [] 0 ZSTD_e_end = Inr r
                \<and> length (cs_out r) \<le> fwrite_count env (clock vd) (length (cs_out r))
                \<and> cs_rem r = 0 \<longrightarrow>
                end_frame env w wd =
                  (if fails env (Suc (clock vd)) X_logFrame
                   then Some (False,
                          v\<lparr>cctx := cs_cctx r,
                            frame_cm := frame_cm v + of_nat (length (cs_out r)),
                            fout := fout v @ cs_out r\<rparr>,
                          release R_buf (diag ''end_frame: log frame''
                            (vd\<lparr>clock := Suc (Suc (clock vd))\<rparr>)))
                   else Some (True,
                          v\<lparr>cctx := cs_cctx r, fout := fout v @ cs_out r,
                            fl := (fl v)\<lparr>entries := entries (fl v) @
                                    [\<lparr>compressed_size = frame_cm v + of_nat (length (cs_out r)),
                                      uncompressed_size = frame_uc v, checksum = 0\<rparr>]\<rparr>,
                            frame_uc := 0, frame_cm := 0\<rparr>,
                          release R_buf (vd\<lparr>clock := Suc (Suc (clock vd))\<rparr>)))))
       \<and> (end_frame env w wd = Some (ok, w', wd') \<and> \<not> fails env (clock wd) X_malloc \<longrightarrow>
            (\<exists>j u ud. drain_turns env (CStreamOutSize env) j w (snd (malloc env R_buf wd))
                         = Some (u, ud)
                     \<and> drain_turn env (CStreamOutSize env) u ud = None))"
proof (intro conjI impI)
  assume ret: "end_frame env w wd = Some (ok, w', wd')"
  show "if ok
        then (\<exists>bs. fout w' = fout w @ bs
                \<and> entries (fl w') = entries (fl w) @
                    [\<lparr>compressed_size = frame_cm w + of_nat (length bs),
                      uncompressed_size = frame_uc w, checksum = 0\<rparr>])
             \<and> frame_uc w' = 0 \<and> frame_cm w' = 0
        else fl w' = fl w \<and> frame_uc w' = frame_uc w"
  proof (cases ok)
    case True
    with ret have "end_frame env w wd = Some (True, w', wd')" by simp
    from end_frame_True [OF this] True show ?thesis by auto
  next
    case False
    with ret have "end_frame env w wd = Some (False, w', wd')" by simp
    from end_frame_False [OF this] False show ?thesis by simp
  qed
next
  assume "fails env (clock wd) X_malloc"
  then show "end_frame env w wd =
      Some (False, w, wd\<lparr>clock := Suc (clock wd),
                          stderr := stderr wd @ [''end_frame: allocate output buffer'']\<rparr>)"
    by (rule end_frame_alloc_fails)
next
  assume a: "\<not> fails env (clock wd) X_malloc
    \<and> drain_turns env (CStreamOutSize env) k w (snd (malloc env R_buf wd)) = Some (v, vd)"
  then have turns: "drain_turns env (CStreamOutSize env) k w (snd (malloc env R_buf wd)) = Some (v, vd)"
    by simp
  from drain_turns_keeps [OF turns]
  show "fl v = fl w" and "frame_uc v = frame_uc w"
    and "\<exists>bs. fout v = fout w @ bs \<and> frame_cm v = frame_cm w + of_nat (length bs)"
    by simp_all
next
  assume "\<not> fails env (clock wd) X_malloc
    \<and> drain_turns env (CStreamOutSize env) k w (snd (malloc env R_buf wd)) = Some (v, vd)"
    and "compressStream2 env (cctx v) (CStreamOutSize env) [] 0 ZSTD_e_end = Inl e"
  then show "end_frame env w wd =
      Some (False, v, release R_buf (diag (''end_frame: compress: '' @ e) vd))"
    using end_frame_compress_fails [of env wd k w v vd e] by simp
next
  assume "\<not> fails env (clock wd) X_malloc
    \<and> drain_turns env (CStreamOutSize env) k w (snd (malloc env R_buf wd)) = Some (v, vd)"
    and "compressStream2 env (cctx v) (CStreamOutSize env) [] 0 ZSTD_e_end = Inr r
       \<and> fwrite_count env (clock vd) (length (cs_out r)) < length (cs_out r)"
  then show "end_frame env w wd =
      Some (False,
        v\<lparr>cctx := cs_cctx r, frame_cm := frame_cm v + of_nat (length (cs_out r)),
          fout := fout v @ take (fwrite_count env (clock vd) (length (cs_out r))) (cs_out r)\<rparr>,
        release R_buf (diag ''end_frame: write to file'' (vd\<lparr>clock := Suc (clock vd)\<rparr>)))"
    using end_frame_write_fails [of env wd k w v vd r] by simp
next
  assume "\<not> fails env (clock wd) X_malloc
    \<and> drain_turns env (CStreamOutSize env) k w (snd (malloc env R_buf wd)) = Some (v, vd)"
    and "compressStream2 env (cctx v) (CStreamOutSize env) [] 0 ZSTD_e_end = Inr r
       \<and> length (cs_out r) \<le> fwrite_count env (clock vd) (length (cs_out r))
       \<and> cs_rem r = 0"
  then show "end_frame env w wd =
      (if fails env (Suc (clock vd)) X_logFrame
       then Some (False,
              v\<lparr>cctx := cs_cctx r, frame_cm := frame_cm v + of_nat (length (cs_out r)),
                fout := fout v @ cs_out r\<rparr>,
              release R_buf (diag ''end_frame: log frame'' (vd\<lparr>clock := Suc (Suc (clock vd))\<rparr>)))
       else Some (True,
              v\<lparr>cctx := cs_cctx r, fout := fout v @ cs_out r,
                fl := (fl v)\<lparr>entries := entries (fl v) @
                        [\<lparr>compressed_size = frame_cm v + of_nat (length (cs_out r)),
                          uncompressed_size = frame_uc v, checksum = 0\<rparr>]\<rparr>,
                frame_uc := 0, frame_cm := 0\<rparr>,
              release R_buf (vd\<lparr>clock := Suc (Suc (clock vd))\<rparr>)))"
    using end_frame_drained [of env wd k w v vd r] by simp
next
  assume "end_frame env w wd = Some (ok, w', wd') \<and> \<not> fails env (clock wd) X_malloc"
  then obtain y where
      "end_frame_loop env (CStreamOutSize env) w (snd (malloc env R_buf wd)) = Some y"
    by (auto simp: end_frame_def Let_def split_beta split: option.splits)
  from end_frame_loop_turns [OF this]
  show "\<exists>j u ud. drain_turns env (CStreamOutSize env) j w (snd (malloc env R_buf wd)) = Some (u, ud)
          \<and> drain_turn env (CStreamOutSize env) u ud = None" .
qed

text \<open>
  Five runs for C5, each on a frame of six pending bytes and an output buffer of four, so
  that the drain takes two turns.  Nothing fails; the allocation fails; the compressor
  reports an error in the second turn; the second write to the file is short; the logging
  fails.  The results are those the theorem gives.
\<close>

theorem C5_end_frame_atomic_witness:
  "end_frame (benv 4 :: (64, byte list) zenv)
     \<lparr>fout = [], cctx = [1, 2, 3, 4, 5, 6], lock = True, frame_uc = 6, frame_cm = 0,
      min_frame_size = 6, fl = \<lparr>entries = [], seekTablePos = 0\<rparr>\<rparr> wd0
   = Some (True,
       \<lparr>fout = [1, 2, 3, 4, 5, 6], cctx = [], lock = True, frame_uc = 0, frame_cm = 0,
        min_frame_size = 6,
        fl = \<lparr>entries = [\<lparr>compressed_size = 6, uncompressed_size = 6, checksum = 0\<rparr>],
              seekTablePos = 0\<rparr>\<rparr>,
       \<lparr>clock = 4, stderr = [], errbuf = ''caller text'',
        events = [Acquire R_buf, Release R_buf]\<rparr>)
   \<and> end_frame (failing X_malloc :: (64, byte list) zenv)
     \<lparr>fout = [], cctx = [1, 2, 3, 4, 5, 6], lock = True, frame_uc = 6, frame_cm = 0,
      min_frame_size = 6, fl = \<lparr>entries = [], seekTablePos = 0\<rparr>\<rparr> wd0
   = Some (False,
       \<lparr>fout = [], cctx = [1, 2, 3, 4, 5, 6], lock = True, frame_uc = 6, frame_cm = 0,
        min_frame_size = 6, fl = \<lparr>entries = [], seekTablePos = 0\<rparr>\<rparr>,
       \<lparr>clock = 1, stderr = [''end_frame: allocate output buffer''], errbuf = ''caller text'',
        events = []\<rparr>)
   \<and> end_frame (poisoned :: (64, byte list) zenv)
     \<lparr>fout = [], cctx = [1, 2, 3, 4, 255, 6], lock = True, frame_uc = 6, frame_cm = 0,
      min_frame_size = 6, fl = \<lparr>entries = [], seekTablePos = 0\<rparr>\<rparr> wd0
   = Some (False,
       \<lparr>fout = [1, 2, 3, 4], cctx = [255, 6], lock = True, frame_uc = 6, frame_cm = 4,
        min_frame_size = 6, fl = \<lparr>entries = [], seekTablePos = 0\<rparr>\<rparr>,
       \<lparr>clock = 2, stderr = [''end_frame: compress: Error (generic)''],
        errbuf = ''caller text'', events = [Acquire R_buf, Release R_buf]\<rparr>)
   \<and> end_frame (short_write 2 :: (64, byte list) zenv)
     \<lparr>fout = [], cctx = [1, 2, 3, 4, 5, 6], lock = True, frame_uc = 6, frame_cm = 0,
      min_frame_size = 6, fl = \<lparr>entries = [], seekTablePos = 0\<rparr>\<rparr> wd0
   = Some (False,
       \<lparr>fout = [1, 2, 3, 4, 5], cctx = [], lock = True, frame_uc = 6, frame_cm = 6,
        min_frame_size = 6, fl = \<lparr>entries = [], seekTablePos = 0\<rparr>\<rparr>,
       \<lparr>clock = 3, stderr = [''end_frame: write to file''], errbuf = ''caller text'',
        events = [Acquire R_buf, Release R_buf]\<rparr>)
   \<and> end_frame (failing X_logFrame :: (64, byte list) zenv)
     \<lparr>fout = [], cctx = [1, 2, 3, 4, 5, 6], lock = True, frame_uc = 6, frame_cm = 0,
      min_frame_size = 6, fl = \<lparr>entries = [], seekTablePos = 0\<rparr>\<rparr> wd0
   = Some (False,
       \<lparr>fout = [1, 2, 3, 4, 5, 6], cctx = [], lock = True, frame_uc = 6, frame_cm = 6,
        min_frame_size = 6, fl = \<lparr>entries = [], seekTablePos = 0\<rparr>\<rparr>,
       \<lparr>clock = 4, stderr = [''end_frame: log frame''], errbuf = ''caller text'',
        events = [Acquire R_buf, Release R_buf]\<rparr>)"
proof -
  let ?w = "\<lparr>fout = [], cctx = [1, 2, 3, 4, 5, 6], lock = True, frame_uc = 6, frame_cm = 0,
      min_frame_size = 6, fl = \<lparr>entries = [], seekTablePos = 0\<rparr>\<rparr> :: (64, byte list) writer"
  let ?wp = "\<lparr>fout = [], cctx = [1, 2, 3, 4, 255, 6], lock = True, frame_uc = 6, frame_cm = 0,
      min_frame_size = 6, fl = \<lparr>entries = [], seekTablePos = 0\<rparr>\<rparr> :: (64, byte list) writer"
  let ?v = "\<lparr>fout = [1, 2, 3, 4], cctx = [5, 6], lock = True, frame_uc = 6, frame_cm = 4,
      min_frame_size = 6, fl = \<lparr>entries = [], seekTablePos = 0\<rparr>\<rparr> :: (64, byte list) writer"
  let ?vp = "\<lparr>fout = [1, 2, 3, 4], cctx = [255, 6], lock = True, frame_uc = 6, frame_cm = 4,
      min_frame_size = 6, fl = \<lparr>entries = [], seekTablePos = 0\<rparr>\<rparr> :: (64, byte list) writer"
  let ?vd = "\<lparr>clock = 2, stderr = [], errbuf = ''caller text'', events = [Acquire R_buf]\<rparr>"
  let ?r = "\<lparr>cs_cctx = [], cs_out = [5, 6], cs_in_pos = 0, cs_rem = 0\<rparr>
            :: (64 word, byte list) cs_result"
  have comp: "buf_compress [5, 6] 4 [] 0 ZSTD_e_end = Inr ?r"
    by (simp add: buf_compress_def)
  have turns_b: "drain_turns (benv 4) 4 1 ?w (snd (malloc (benv 4 :: (64, byte list) zenv) R_buf wd0))
      = Some (?v, ?vd)"
    by (simp add: drain_turn_def buf_compress_def fwrite_def malloc_def ext_call_def acquire_def
          wd0_def Let_def)
  have turns_s: "drain_turns (short_write 2) 4 1 ?w
        (snd (malloc (short_write 2 :: (64, byte list) zenv) R_buf wd0)) = Some (?v, ?vd)"
    by (simp add: drain_turn_def buf_compress_def fwrite_def malloc_def ext_call_def acquire_def
          wd0_def Let_def)
  have turns_l: "drain_turns (failing X_logFrame) 4 1 ?w
        (snd (malloc (failing X_logFrame :: (64, byte list) zenv) R_buf wd0)) = Some (?v, ?vd)"
    by (simp add: drain_turn_def buf_compress_def fwrite_def malloc_def ext_call_def acquire_def
          wd0_def Let_def)
  have turns_p: "drain_turns poisoned 4 1 ?wp
        (snd (malloc (poisoned :: (64, byte list) zenv) R_buf wd0)) = Some (?vp, ?vd)"
    by (simp add: drain_turn_def poison_compress_def buf_compress_def fwrite_def malloc_def
          ext_call_def acquire_def wd0_def Let_def)
  have comp_p: "poison_compress [255, 6] 4 [] 0 ZSTD_e_end
      = (Inl ''Error (generic)'' :: string + (64 word, byte list) cs_result)"
    by (simp add: poison_compress_def)
  have good: "end_frame (benv 4) ?w wd0
   = Some (True,
       \<lparr>fout = [1, 2, 3, 4, 5, 6], cctx = [], lock = True, frame_uc = 0, frame_cm = 0,
        min_frame_size = 6,
        fl = \<lparr>entries = [\<lparr>compressed_size = 6, uncompressed_size = 6, checksum = 0\<rparr>],
              seekTablePos = 0\<rparr>\<rparr>,
       \<lparr>clock = 4, stderr = [], errbuf = ''caller text'',
        events = [Acquire R_buf, Release R_buf]\<rparr>)"
    using C5_end_frame_atomic [where env = "benv 4 :: (64, byte list) zenv" and w = ?w
            and wd = wd0 and k = 1 and v = ?v and vd = ?vd and r = ?r
            and ok = True and w' = ?w and wd' = wd0 and e = "''''"]
          turns_b comp
    by (simp add: release_def wd0_def)
  have alloc: "end_frame (failing X_malloc) ?w wd0
   = Some (False, ?w,
       \<lparr>clock = 1, stderr = [''end_frame: allocate output buffer''], errbuf = ''caller text'',
        events = []\<rparr>)"
    using C5_end_frame_atomic [where env = "failing X_malloc :: (64, byte list) zenv" and w = ?w
            and wd = wd0 and k = 0 and v = ?w and vd = wd0 and r = ?r
            and ok = True and w' = ?w and wd' = wd0 and e = "''''"]
    by (simp add: wd0_def)
  have poison: "end_frame poisoned ?wp wd0
   = Some (False, ?vp,
       \<lparr>clock = 2, stderr = [''end_frame: compress: Error (generic)''],
        errbuf = ''caller text'', events = [Acquire R_buf, Release R_buf]\<rparr>)"
    using C5_end_frame_atomic [where env = "poisoned :: (64, byte list) zenv" and w = ?wp
            and wd = wd0 and k = 1 and v = ?vp and vd = ?vd and r = ?r
            and ok = True and w' = ?wp and wd' = wd0 and e = "''Error (generic)''"]
          turns_p comp_p
    by (simp add: release_def diag_def wd0_def)
  have short: "end_frame (short_write 2) ?w wd0
   = Some (False,
       \<lparr>fout = [1, 2, 3, 4, 5], cctx = [], lock = True, frame_uc = 6, frame_cm = 6,
        min_frame_size = 6, fl = \<lparr>entries = [], seekTablePos = 0\<rparr>\<rparr>,
       \<lparr>clock = 3, stderr = [''end_frame: write to file''], errbuf = ''caller text'',
        events = [Acquire R_buf, Release R_buf]\<rparr>)"
    using C5_end_frame_atomic [where env = "short_write 2 :: (64, byte list) zenv" and w = ?w
            and wd = wd0 and k = 1 and v = ?v and vd = ?vd and r = ?r
            and ok = True and w' = ?w and wd' = wd0 and e = "''''"]
          turns_s comp
    by (simp add: release_def diag_def wd0_def)
  have log: "end_frame (failing X_logFrame) ?w wd0
   = Some (False,
       \<lparr>fout = [1, 2, 3, 4, 5, 6], cctx = [], lock = True, frame_uc = 6, frame_cm = 6,
        min_frame_size = 6, fl = \<lparr>entries = [], seekTablePos = 0\<rparr>\<rparr>,
       \<lparr>clock = 4, stderr = [''end_frame: log frame''], errbuf = ''caller text'',
        events = [Acquire R_buf, Release R_buf]\<rparr>)"
    using C5_end_frame_atomic [where env = "failing X_logFrame :: (64, byte list) zenv" and w = ?w
            and wd = wd0 and k = 1 and v = ?v and vd = ?vd and r = ?r
            and ok = True and w' = ?w and wd' = wd0 and e = "''''"]
          turns_l comp
    by (simp add: release_def diag_def wd0_def)
  from good alloc poison short log show ?thesis
    by simp
qed

subsection \<open>The turns of the feed loop\<close>









subsection \<open>C6: a write joins the current frame whole\<close>




lemma passing_fields [simp]:
  "fails passing t x = False"
  "fwrite_count passing t n = n"
  "CStreamOutSize passing = 4"
  "compressStream2 passing = pass_compress"
  by (simp_all add: passing_def penv_def)



end
